theory Spec2Isabelle
  imports Main
begin

section \<open>The CloudFront distribution construct of cdk-nextjs\<close>

text \<open>
  A shallow embedding of \<^verbatim>\<open>src/nextjs-distribution.ts\<close>: the class
  \<^verbatim>\<open>NextjsDistribution\<close>, its constructor and its private methods.

  Conventions of the embedding:
  \<^item> an optional TypeScript property \<^verbatim>\<open>x?: T\<close> is a field of type \<open>T option\<close>;
    \<^verbatim>\<open>undefined\<close> is \<open>None\<close>;
  \<^item> the object spread \<^verbatim>\<open>{ a: v, ...o }\<close> is a field-by-field merge in which a field
    that \<open>o\<close> carries wins (\<open>spread\<close> below);
  \<^item> \<^verbatim>\<open>throw new Error(msg)\<close> is the value \<open>Inl (Error msg)\<close>; an error thrown
    inside aws-cdk-lib by a call that the class makes is \<open>Inl (CdkError check)\<close>, where
    \<open>check\<close> names the check of the library that failed;
  \<^item> the constructs that the class registers under itself (\<^verbatim>\<open>new X(this, id, ...)\<close>)
    are recorded, by their id and in creation order, in the field \<open>children\<close>;
  \<^item> the calls \<^verbatim>\<open>this.distribution.addBehavior(pattern, origin, options)\<close> are
    recorded, in call order, in the field \<open>addBehaviorCalls\<close>;
  \<^item> a property that is present with the value \<^verbatim>\<open>undefined\<close> is not told apart from an
    absent one;
  \<^item> a string is a list of 8-bit characters; every character outside ASCII is
    outside the path pattern grammar in the source and in the model alike.
\<close>

subsection \<open>Errors\<close>

text \<open>
  The checks of aws-cdk-lib that the class runs into with values it writes itself or derives
  from the stack name, the base path and the public directory entries:
  \<^verbatim>\<open>Code.fromInline\<close> rejects empty code (and code of more than 4096 characters),
  \<^verbatim>\<open>Distribution.addBehavior\<close> rejects the path pattern \<^verbatim>\<open>*\<close>, which is reserved for the
  default behavior, and \<^verbatim>\<open>new CachePolicy\<close> rejects a comment of more than 128
  characters. What the library checks on the values of an override (the name of a policy,
  the timeouts of an origin, the event types of edge functions) is outside the model: the
  constructs take the overrides as they come.
\<close>

datatype cdk_error =
  InlineCodeEmpty | InlineCodeTooLarge nat | StarPathPattern | CommentTooLong nat

datatype error = Error string | CdkError cdk_error

subsection \<open>Types of aws-cdk-lib that the class reads or builds\<close>

type_synonym construct_id = string
type_synonym IBucket = string
type_synonym ICertificate = string
type_synonym Duration = nat  \<comment> \<open>in days\<close>

datatype OriginProtocolPolicy = HTTP_ONLY | MATCH_VIEWER | HTTPS_ONLY

datatype IOriginRequestPolicy =
  ALL_VIEWER | ALL_VIEWER_EXCEPT_HOST_HEADER | OtherOriginRequestPolicy string

datatype ViewerProtocolPolicy = VIEWER_HTTPS_ONLY | REDIRECT_TO_HTTPS | VIEWER_ALLOW_ALL

datatype AllowedMethods = ALLOW_GET_HEAD | ALLOW_GET_HEAD_OPTIONS | ALLOW_ALL

datatype CachedMethods = CACHE_GET_HEAD | CACHE_GET_HEAD_OPTIONS

datatype CacheQueryStringBehavior =
  QueryString_none | QueryString_all | QueryString_allowList "string list"
  | QueryString_denyList "string list"

datatype CacheHeaderBehavior = Header_none | Header_allowList "string list"

datatype CacheCookieBehavior =
  Cookie_none | Cookie_all | Cookie_allowList "string list" | Cookie_denyList "string list"

datatype HeadersFrameOption = DENY | SAMEORIGIN

datatype HeadersReferrerPolicy =
  NO_REFERRER | NO_REFERRER_WHEN_DOWNGRADE | ORIGIN | ORIGIN_WHEN_CROSS_ORIGIN
  | SAME_ORIGIN | STRICT_ORIGIN | STRICT_ORIGIN_WHEN_CROSS_ORIGIN | UNSAFE_URL

datatype FunctionEventType = VIEWER_REQUEST | VIEWER_RESPONSE

datatype LambdaEdgeEventType =
  ORIGIN_REQUEST | ORIGIN_RESPONSE | EDGE_VIEWER_REQUEST | EDGE_VIEWER_RESPONSE

datatype SecurityPolicyProtocol = TLS_V1_2_2019 | TLS_V1_2_2021 | OtherSecurityPolicy string

datatype HttpVersion = HTTP1_1 | HTTP2 | HTTP2_AND_3 | HTTP3

record ResponseHeadersContentTypeOptions =
  cto_override :: bool

record ResponseHeadersFrameOptions =
  frameOption :: HeadersFrameOption
  fo_override :: bool

record ResponseHeadersReferrerPolicy =
  rp_override :: bool
  rp_referrerPolicy :: HeadersReferrerPolicy

record ResponseHeadersStrictTransportSecurity =
  accessControlMaxAge :: Duration
  includeSubdomains :: "bool option"
  sts_override :: bool
  preload :: "bool option"

record ResponseHeadersXSSProtection =
  xss_override :: bool
  protection :: bool
  modeBlock :: "bool option"
  reportUri :: "string option"

record ResponseSecurityHeadersBehavior =
  contentSecurityPolicy :: "(string \<times> bool) option"
  contentTypeOptions :: "ResponseHeadersContentTypeOptions option"
  frameOptions :: "ResponseHeadersFrameOptions option"
  referrerPolicy :: "ResponseHeadersReferrerPolicy option"
  strictTransportSecurity :: "ResponseHeadersStrictTransportSecurity option"
  xssProtection :: "ResponseHeadersXSSProtection option"

text \<open>\<^verbatim>\<open>ResponseHeadersPolicyProps\<close>: every property is optional.\<close>

record ResponseHeadersPolicyProps =
  rhp_comment :: "string option"
  corsBehavior :: "string option"
  customHeadersBehavior :: "(string \<times> string \<times> bool) list option"
  removeHeaders :: "string list option"
  responseHeadersPolicyName :: "string option"
  securityHeadersBehavior :: "ResponseSecurityHeadersBehavior option"
  serverTimingSamplingRate :: "nat option"

text \<open>
  An \<^verbatim>\<open>IResponseHeadersPolicy\<close> is either a policy construct built with
  \<^verbatim>\<open>new ResponseHeadersPolicy(scope, id, props)\<close> or a policy known by its identifier only.
\<close>

datatype IResponseHeadersPolicy =
  ResponseHeadersPolicy construct_id ResponseHeadersPolicyProps
  | ImportedResponseHeadersPolicy string

record CachePolicyProps =
  cachePolicyName :: "string option"
  cp_comment :: "string option"
  cookieBehavior :: "CacheCookieBehavior option"
  defaultTtl :: "Duration option"
  enableAcceptEncodingBrotli :: "bool option"
  enableAcceptEncodingGzip :: "bool option"
  headerBehavior :: "CacheHeaderBehavior option"
  maxTtl :: "Duration option"
  minTtl :: "Duration option"
  queryStringBehavior :: "CacheQueryStringBehavior option"

datatype ICachePolicy =
  CACHING_OPTIMIZED
  | CachePolicy construct_id CachePolicyProps
  | ImportedCachePolicy string

record HttpOriginProps =
  protocolPolicy :: "OriginProtocolPolicy option"
  httpPort :: "nat option"
  httpsPort :: "nat option"
  originPath :: "string option"
  readTimeout :: "nat option"
  keepaliveTimeout :: "nat option"

text \<open>
  \<^verbatim>\<open>Fn.parseDomainName(url)\<close> is an intrinsic resolved at deployment; it stays symbolic.
  \<^verbatim>\<open>OptionalS3OriginBucketWithOACProps\<close> and \<^verbatim>\<open>OptionalFunctionProps\<close> are generated
  structs that the class passes on without reading them.
\<close>

datatype DomainName = Fn_parseDomainName string

typedecl OptionalS3OriginBucketWithOACProps
typedecl OptionalFunctionProps

datatype IOrigin =
  S3BucketOrigin_withOriginAccessControl IBucket "OptionalS3OriginBucketWithOACProps option"
  | HttpOrigin DomainName HttpOriginProps

record FunctionAssociation =
  fa_eventType :: FunctionEventType
  fa_function :: construct_id

record EdgeLambda =
  el_eventType :: LambdaEdgeEventType
  functionVersion :: construct_id
  includeBody :: "bool option"

text \<open>
  \<^verbatim>\<open>AddBehaviorOptions\<close> has optional properties only; \<^verbatim>\<open>BehaviorOptions\<close> extends it
  with the required \<^verbatim>\<open>origin\<close>.
\<close>

record AddBehaviorOptions =
  allowedMethods :: "AllowedMethods option"
  cachedMethods :: "CachedMethods option"
  cachePolicy :: "ICachePolicy option"
  compress :: "bool option"
  edgeLambdas :: "EdgeLambda list option"
  functionAssociations :: "FunctionAssociation list option"
  originRequestPolicy :: "IOriginRequestPolicy option"
  responseHeadersPolicy :: "IResponseHeadersPolicy option"
  viewerProtocolPolicy :: "ViewerProtocolPolicy option"

record BehaviorOptions = AddBehaviorOptions +
  origin :: IOrigin

text \<open>
  \<^verbatim>\<open>OptionalDistributionProps\<close> (a generated struct): the properties of
  \<^verbatim>\<open>DistributionProps\<close> that the class sets, all optional.
\<close>

record OptionalDistributionProps =
  odp_minimumProtocolVersion :: "SecurityPolicyProtocol option"
  odp_defaultBehavior :: "BehaviorOptions option"
  odp_httpVersion :: "HttpVersion option"
  odp_comment :: "string option"

datatype Distribution =
  Distribution construct_id OptionalDistributionProps
  | ExistingDistribution string

subsection \<open>Types of this repository\<close>

text \<open>
  Modelled from the spec: the enum \<^verbatim>\<open>NextjsType\<close> of \<^verbatim>\<open>./common\<close>, which is not among
  the sources. The class names its members \<^verbatim>\<open>GLOBAL_FUNCTIONS\<close> and
  \<^verbatim>\<open>GLOBAL_CONTAINERS\<close>; the spec lists three topologies, \<^verbatim>\<open>EdgeFunction\<close> (the one the
  class tests for, \<open>GLOBAL_FUNCTIONS\<close>), \<^verbatim>\<open>ServerFunction\<close> and \<^verbatim>\<open>Container\<close>.
\<close>

datatype NextjsType = GLOBAL_FUNCTIONS | SERVER_FUNCTION | GLOBAL_CONTAINERS

text \<open>
  Modelled from the spec: \<^verbatim>\<open>PublicDirEntry\<close> of \<^verbatim>\<open>./nextjs-build/nextjs-build\<close>, which is
  not among the sources; the spec gives \<^verbatim>\<open>{ name: string, isDirectory: bool }\<close>, the two
  properties that the class reads.
\<close>

record PublicDirEntry =
  name :: string
  isDirectory :: bool

record NextjsDistributionOverrides =
  edgeFunctionProps :: "OptionalFunctionProps option"
  distributionProps :: "OptionalDistributionProps option"
  imageBehaviorOptions :: "AddBehaviorOptions option"
  imageCachePolicyProps :: "CachePolicyProps option"
  imageResponseHeadersPolicyProps :: "ResponseHeadersPolicyProps option"
  dynamicBehaviorOptions :: "AddBehaviorOptions option"
  dynamicCachePolicyProps :: "CachePolicyProps option"
  dynamicResponseHeadersPolicyProps :: "ResponseHeadersPolicyProps option"
  dynamicHttpOriginProps :: "HttpOriginProps option"
  staticBehaviorOptions :: "AddBehaviorOptions option"
  staticResponseHeadersPolicyProps :: "ResponseHeadersPolicyProps option"
  s3BucketOriginProps :: "OptionalS3OriginBucketWithOACProps option"

record NextjsDistributionProps =
  assetsBucket :: IBucket
  basePath :: "string option"
  certificate :: "ICertificate option"
  distribution :: "Distribution option"
  dynamicUrl :: string
  functionArn :: "string option"
  nextjsType :: NextjsType
  overrides :: "NextjsDistributionOverrides option"
  publicDirEntries :: "PublicDirEntry list"

text \<open>
  The state of a \<^verbatim>\<open>NextjsDistribution\<close> instance that outlives its constructor, also when
  the constructor throws: the constructs registered under it, the distribution it holds
  (none before \<^verbatim>\<open>getDistribution\<close> has run) and the calls it has made to
  \<^verbatim>\<open>addBehavior\<close> of that distribution.
\<close>

record NextjsDistribution =
  children :: "construct_id list"
  this_distribution :: "Distribution option"
  addBehaviorCalls :: "(string \<times> IOrigin \<times> BehaviorOptions) list"

section \<open>The class\<close>

subsection \<open>Optional chaining, truthiness and object spread\<close>

text \<open>\<^verbatim>\<open>this.props.overrides?.f\<close>\<close>

definition override_of ::
  "NextjsDistributionProps \<Rightarrow> (NextjsDistributionOverrides \<Rightarrow> 'a option) \<Rightarrow> 'a option" where
  "override_of props f = (case overrides props of None \<Rightarrow> None | Some ov \<Rightarrow> f ov)"

text \<open>
  An optional string in a condition (\<^verbatim>\<open>if (this.props.basePath)\<close>,
  \<^verbatim>\<open>!this.props.functionArn\<close>): \<^verbatim>\<open>undefined\<close> and the empty string are falsy.
\<close>

definition truthy :: "string option \<Rightarrow> bool" where
  "truthy s = (case s of None \<Rightarrow> False | Some v \<Rightarrow> v \<noteq> [])"

text \<open>One property of \<^verbatim>\<open>{ f: dflt, ...ov }\<close>: the spread object's value wins where it has one.\<close>

definition spread :: "'a option \<Rightarrow> 'a option \<Rightarrow> 'a option" where
  "spread dflt ov = (case ov of None \<Rightarrow> dflt | Some v \<Rightarrow> Some v)"

definition spreadResponseHeadersPolicyProps ::
  "ResponseHeadersPolicyProps \<Rightarrow> ResponseHeadersPolicyProps option \<Rightarrow> ResponseHeadersPolicyProps" where
  "spreadResponseHeadersPolicyProps d ov = (case ov of
     None \<Rightarrow> d
   | Some p \<Rightarrow>
      \<lparr> rhp_comment = spread (rhp_comment d) (rhp_comment p),
        corsBehavior = spread (corsBehavior d) (corsBehavior p),
        customHeadersBehavior = spread (customHeadersBehavior d) (customHeadersBehavior p),
        removeHeaders = spread (removeHeaders d) (removeHeaders p),
        responseHeadersPolicyName = spread (responseHeadersPolicyName d) (responseHeadersPolicyName p),
        securityHeadersBehavior = spread (securityHeadersBehavior d) (securityHeadersBehavior p),
        serverTimingSamplingRate = spread (serverTimingSamplingRate d) (serverTimingSamplingRate p) \<rparr>)"

text \<open>
  Spreading a policy object (not policy properties) into the properties of a new policy, as
  \<^verbatim>\<open>createDynamicBehaviorOptions\<close> does: a policy object has no own property that is a
  policy property, so the properties stay as they are.
\<close>

definition spreadResponseHeadersPolicyObject ::
  "ResponseHeadersPolicyProps \<Rightarrow> IResponseHeadersPolicy option \<Rightarrow> ResponseHeadersPolicyProps" where
  "spreadResponseHeadersPolicyObject d ov = (case ov of None \<Rightarrow> d | Some policy \<Rightarrow> d)"

definition spreadCachePolicyProps ::
  "CachePolicyProps \<Rightarrow> CachePolicyProps option \<Rightarrow> CachePolicyProps" where
  "spreadCachePolicyProps d ov = (case ov of
     None \<Rightarrow> d
   | Some p \<Rightarrow>
      \<lparr> cachePolicyName = spread (cachePolicyName d) (cachePolicyName p),
        cp_comment = spread (cp_comment d) (cp_comment p),
        cookieBehavior = spread (cookieBehavior d) (cookieBehavior p),
        defaultTtl = spread (defaultTtl d) (defaultTtl p),
        enableAcceptEncodingBrotli =
          spread (enableAcceptEncodingBrotli d) (enableAcceptEncodingBrotli p),
        enableAcceptEncodingGzip = spread (enableAcceptEncodingGzip d) (enableAcceptEncodingGzip p),
        headerBehavior = spread (headerBehavior d) (headerBehavior p),
        maxTtl = spread (maxTtl d) (maxTtl p),
        minTtl = spread (minTtl d) (minTtl p),
        queryStringBehavior = spread (queryStringBehavior d) (queryStringBehavior p) \<rparr>)"

definition spreadHttpOriginProps ::
  "HttpOriginProps \<Rightarrow> HttpOriginProps option \<Rightarrow> HttpOriginProps" where
  "spreadHttpOriginProps d ov = (case ov of
     None \<Rightarrow> d
   | Some p \<Rightarrow>
      \<lparr> protocolPolicy = spread (protocolPolicy d) (protocolPolicy p),
        httpPort = spread (httpPort d) (httpPort p),
        httpsPort = spread (httpsPort d) (httpsPort p),
        originPath = spread (originPath d) (originPath p),
        readTimeout = spread (readTimeout d) (readTimeout p),
        keepaliveTimeout = spread (keepaliveTimeout d) (keepaliveTimeout p) \<rparr>)"

text \<open>\<^verbatim>\<open>{ ...defaults, origin, ...addBehaviorOptions }\<close>: the spread object has no origin.\<close>

definition spreadBehaviorOptions ::
  "BehaviorOptions \<Rightarrow> AddBehaviorOptions option \<Rightarrow> BehaviorOptions" where
  "spreadBehaviorOptions d ov = (case ov of
     None \<Rightarrow> d
   | Some p \<Rightarrow>
      \<lparr> allowedMethods = spread (allowedMethods d) (allowedMethods p),
        cachedMethods = spread (cachedMethods d) (cachedMethods p),
        cachePolicy = spread (cachePolicy d) (cachePolicy p),
        compress = spread (compress d) (compress p),
        edgeLambdas = spread (edgeLambdas d) (edgeLambdas p),
        functionAssociations = spread (functionAssociations d) (functionAssociations p),
        originRequestPolicy = spread (originRequestPolicy d) (originRequestPolicy p),
        responseHeadersPolicy = spread (responseHeadersPolicy d) (responseHeadersPolicy p),
        viewerProtocolPolicy = spread (viewerProtocolPolicy d) (viewerProtocolPolicy p),
        origin = origin d \<rparr>)"

definition spreadDistributionProps ::
  "OptionalDistributionProps \<Rightarrow> OptionalDistributionProps option \<Rightarrow> OptionalDistributionProps" where
  "spreadDistributionProps d ov = (case ov of
     None \<Rightarrow> d
   | Some p \<Rightarrow>
      \<lparr> odp_minimumProtocolVersion =
          spread (odp_minimumProtocolVersion d) (odp_minimumProtocolVersion p),
        odp_defaultBehavior = spread (odp_defaultBehavior d) (odp_defaultBehavior p),
        odp_httpVersion = spread (odp_httpVersion d) (odp_httpVersion p),
        odp_comment = spread (odp_comment d) (odp_comment p) \<rparr>)"

subsection \<open>Error values\<close>

text \<open>
  The three \<^verbatim>\<open>throw new Error(...)\<close> of the class, each with the message of the source,
  under the names of the spec's taxonomy: the one of \<^verbatim>\<open>createEdgeLambdas\<close>, the one
  of \<^verbatim>\<open>addStaticBehaviors\<close> before its loop, and the one inside the loop, whose message
  carries \<^verbatim>\<open>${pathPattern}\<close>.
\<close>

definition MissingRequiredInput :: error where
  "MissingRequiredInput = Error ''functionArn is required''"

definition ConfigurationLimitExceeded :: error where
  "ConfigurationLimitExceeded = Error ''Too many public/ files in Next.js build. CloudFront limits Distributions to 25 Cache Behaviors. See documented limit here: https://docs.aws.amazon.com/AmazonCloudFront/latest/DeveloperGuide/cloudfront-limits.html#limits-web-distributions. Try including all public files into 1 top level directory (i.e. static/*).''"

definition InvalidPathPattern :: "string \<Rightarrow> error" where
  "InvalidPathPattern pathPattern = Error (''Invalid CloudFront Distribution Cache Behavior Path Pattern: '' @ pathPattern @ ''. Please see documentation here: https://docs.aws.amazon.com/AmazonCloudFront/latest/DeveloperGuide/distribution-web-values-specify.html#DownloadDistValuesPathPattern'')"

subsection \<open>Fields and private methods\<close>

definition commonSecurityHeadersBehavior :: ResponseSecurityHeadersBehavior where
  "commonSecurityHeadersBehavior =
    \<lparr> contentSecurityPolicy = None,
      contentTypeOptions = Some \<lparr> cto_override = False \<rparr>,
      frameOptions = Some \<lparr> frameOption = SAMEORIGIN, fo_override = False \<rparr>,
      referrerPolicy =
        Some \<lparr> rp_override = False, rp_referrerPolicy = STRICT_ORIGIN_WHEN_CROSS_ORIGIN \<rparr>,
      strictTransportSecurity =
        Some \<lparr> accessControlMaxAge = 365, includeSubdomains = Some True,
               sts_override = False, preload = Some True \<rparr>,
      xssProtection =
        Some \<lparr> xss_override = False, protection = True, modeBlock = Some True,
               reportUri = None \<rparr> \<rparr>"

definition createStaticOrigin :: "NextjsDistributionProps \<Rightarrow> IOrigin" where
  "createStaticOrigin props =
     S3BucketOrigin_withOriginAccessControl (assetsBucket props)
       (override_of props s3BucketOriginProps)"

definition createDynamicOrigin :: "NextjsDistributionProps \<Rightarrow> bool \<Rightarrow> IOrigin" where
  "createDynamicOrigin props isFunctionCompute =
     (let protocolPolicy =
            (if isFunctionCompute then HTTPS_ONLY
             else (case certificate props of Some c \<Rightarrow> HTTPS_ONLY | None \<Rightarrow> HTTP_ONLY))
      in HttpOrigin (Fn_parseDomainName (dynamicUrl props))
           (spreadHttpOriginProps
              \<lparr> protocolPolicy = Some protocolPolicy, httpPort = None, httpsPort = None,
                originPath = None, readTimeout = None, keepaliveTimeout = None \<rparr>
              (override_of props dynamicHttpOriginProps)))"

definition createDynamicOriginRequestPolicy :: "bool \<Rightarrow> IOriginRequestPolicy" where
  "createDynamicOriginRequestPolicy isFunctionCompute =
     (if isFunctionCompute then ALL_VIEWER_EXCEPT_HOST_HEADER else ALL_VIEWER)"

definition createDynamicCloudFrontFunctionAssociations ::
  "bool \<Rightarrow> construct_id list \<Rightarrow> FunctionAssociation list \<times> construct_id list" where
  "createDynamicCloudFrontFunctionAssociations isFunctionCompute ch =
     (if isFunctionCompute
      then ([\<lparr> fa_eventType = VIEWER_REQUEST, fa_function = ''CloudFrontFn'' \<rparr>],
            ch @ [''CloudFrontFn''])
      else ([], ch))"

text \<open>
  \<^verbatim>\<open>Code.fromInline(code)\<close> of aws-cdk-lib: the code must not be empty, nor longer than
  4096 characters.
\<close>

definition Code_fromInline :: "string \<Rightarrow> error + string" where
  "Code_fromInline code =
     (if length code = 0 then Inl (CdkError InlineCodeEmpty)
      else if length code > 4096 then Inl (CdkError (InlineCodeTooLarge (length code)))
      else Inr code)"

text \<open>
  \<^verbatim>\<open>new CachePolicy(scope, id, props)\<close> of aws-cdk-lib: a comment, when there is one, must
  not be longer than 128 characters. The construct is registered under its scope before the
  check is made.
\<close>

definition new_CachePolicy :: "construct_id \<Rightarrow> CachePolicyProps \<Rightarrow> error + ICachePolicy" where
  "new_CachePolicy cid props =
     (case cp_comment props of
        None \<Rightarrow> Inr (CachePolicy cid props)
      | Some c \<Rightarrow>
         if c \<noteq> [] \<and> length c > 128 then Inl (CdkError (CommentTooLong (length c)))
         else Inr (CachePolicy cid props))"

text \<open>
  The properties of the edge function are evaluated in the order in which they are written:
  the policy statement on \<^verbatim>\<open>functionArn\<close>, the override, the runtime, then
  \<^verbatim>\<open>Code.fromInline("")\<close>, before \<^verbatim>\<open>new SignFnUrlFunction\<close> itself is entered. The
  behaviors refer to the current version of the edge function.
\<close>

definition createEdgeLambdas ::
  "NextjsDistributionProps \<Rightarrow> construct_id list \<Rightarrow> error + EdgeLambda list \<times> construct_id list" where
  "createEdgeLambdas props ch =
     (if \<not> truthy (functionArn props) then Inl MissingRequiredInput
      else (case Code_fromInline [] of
              Inl e \<Rightarrow> Inl e
            | Inr code \<Rightarrow>
               Inr ([\<lparr> el_eventType = ORIGIN_REQUEST, functionVersion = ''SignFnUrl'',
                       includeBody = Some True \<rparr>],
                    ch @ [''SignFnUrl''])))"

definition createStaticBehaviorOptions ::
  "string \<Rightarrow> NextjsDistributionProps \<Rightarrow> IOrigin \<Rightarrow> construct_id list
    \<Rightarrow> BehaviorOptions \<times> construct_id list" where
  "createStaticBehaviorOptions stackName props staticOrigin ch =
     (let staticBehaviorOptions' = override_of props staticBehaviorOptions;
          (responseHeadersPolicy', ch') =
            (case Option.bind staticBehaviorOptions' responseHeadersPolicy of
               Some policy \<Rightarrow> (policy, ch)
             | None \<Rightarrow>
                (ResponseHeadersPolicy ''StaticResponseHeadersPolicy''
                   (spreadResponseHeadersPolicyProps
                      \<lparr> rhp_comment =
                          Some (''Nextjs Static Response Headers Policy for '' @ stackName),
                        corsBehavior = None, customHeadersBehavior = None,
                        removeHeaders = None, responseHeadersPolicyName = None,
                        securityHeadersBehavior = Some commonSecurityHeadersBehavior,
                        serverTimingSamplingRate = None \<rparr>
                      (override_of props staticResponseHeadersPolicyProps)),
                 ch @ [''StaticResponseHeadersPolicy'']))
      in (spreadBehaviorOptions
            \<lparr> allowedMethods = Some ALLOW_GET_HEAD_OPTIONS,
              cachedMethods = Some CACHE_GET_HEAD_OPTIONS,
              cachePolicy = Some CACHING_OPTIMIZED,
              compress = None, edgeLambdas = None, functionAssociations = None,
              originRequestPolicy = None,
              responseHeadersPolicy = Some responseHeadersPolicy',
              viewerProtocolPolicy = Some REDIRECT_TO_HTTPS,
              origin = staticOrigin \<rparr>
            staticBehaviorOptions',
          ch'))"

definition createDynamicBehaviorOptions ::
  "string \<Rightarrow> NextjsDistributionProps \<Rightarrow> EdgeLambda list option \<Rightarrow> FunctionAssociation list
    \<Rightarrow> IOrigin \<Rightarrow> IOriginRequestPolicy \<Rightarrow> construct_id list
    \<Rightarrow> (error + BehaviorOptions) \<times> construct_id list" where
  "createDynamicBehaviorOptions stackName props this_edgeLambdas associations dynamicOrigin
       dynamicOriginResponsePolicy ch =
     (let dynamicBehaviorOptions' = override_of props dynamicBehaviorOptions;
          (cachePolicy', ch1) =
            (case Option.bind dynamicBehaviorOptions' cachePolicy of
               Some policy \<Rightarrow> (Inr policy, ch)
             | None \<Rightarrow>
                (new_CachePolicy ''DynamicCachePolicy''
                   (spreadCachePolicyProps
                      \<lparr> cachePolicyName = None,
                        cp_comment = Some (''Nextjs Dynamic Cache Policy for '' @ stackName),
                        cookieBehavior = Some Cookie_all,
                        defaultTtl = None,
                        enableAcceptEncodingBrotli = Some True,
                        enableAcceptEncodingGzip = Some True,
                        headerBehavior =
                          Some (Header_allowList
                            [''accept'', ''rsc'', ''next-router-prefetch'',
                             ''next-router-state-tree'', ''next-url'',
                             ''x-prerender-revalidate'']),
                        maxTtl = None, minTtl = None,
                        queryStringBehavior = Some QueryString_all \<rparr>
                      (override_of props dynamicCachePolicyProps)),
                 ch @ [''DynamicCachePolicy'']))
      in case cachePolicy' of
           Inl e \<Rightarrow> (Inl e, ch1)
         | Inr cachePolicy'' \<Rightarrow>
     (let (responseHeadersPolicy', ch2) =
            (case Option.bind dynamicBehaviorOptions' responseHeadersPolicy of
               Some policy \<Rightarrow> (policy, ch1)
             | None \<Rightarrow>
                (ResponseHeadersPolicy ''DynamicResponseHeadersPolicy''
                   (spreadResponseHeadersPolicyObject
                      \<lparr> rhp_comment =
                          Some (''Nextjs Dynamic Response Headers Policy for '' @ stackName),
                        corsBehavior = None, customHeadersBehavior = None,
                        removeHeaders = None, responseHeadersPolicyName = None,
                        securityHeadersBehavior = Some commonSecurityHeadersBehavior,
                        serverTimingSamplingRate = None \<rparr>
                      (Option.bind (override_of props dynamicBehaviorOptions)
                         responseHeadersPolicy)),
                 ch1 @ [''DynamicResponseHeadersPolicy'']))
      in (Inr (spreadBehaviorOptions
            \<lparr> allowedMethods = Some ALLOW_ALL,
              cachedMethods = None,
              cachePolicy = Some cachePolicy'',
              compress = None,
              edgeLambdas = this_edgeLambdas,
              functionAssociations = Some associations,
              originRequestPolicy = Some dynamicOriginResponsePolicy,
              responseHeadersPolicy = Some responseHeadersPolicy',
              viewerProtocolPolicy = Some REDIRECT_TO_HTTPS,
              origin = dynamicOrigin \<rparr>
            dynamicBehaviorOptions'),
          ch2)))"

definition createImageBehaviorOptions ::
  "string \<Rightarrow> NextjsDistributionProps \<Rightarrow> EdgeLambda list option \<Rightarrow> FunctionAssociation list
    \<Rightarrow> IOrigin \<Rightarrow> IOriginRequestPolicy \<Rightarrow> construct_id list
    \<Rightarrow> (error + BehaviorOptions) \<times> construct_id list" where
  "createImageBehaviorOptions stackName props this_edgeLambdas associations dynamicOrigin
       dynamicOriginResponsePolicy ch =
     (let imageBehaviorOptions' = override_of props imageBehaviorOptions;
          (cachePolicy', ch1) =
            (case Option.bind imageBehaviorOptions' cachePolicy of
               Some policy \<Rightarrow> (Inr policy, ch)
             | None \<Rightarrow>
                (new_CachePolicy ''ImageCachePolicy''
                   (spreadCachePolicyProps
                      \<lparr> cachePolicyName = None,
                        cp_comment = Some (''Nextjs Image Cache Policy for '' @ stackName),
                        cookieBehavior = Some Cookie_none,
                        defaultTtl = None,
                        enableAcceptEncodingBrotli = Some True,
                        enableAcceptEncodingGzip = Some True,
                        headerBehavior = Some (Header_allowList [''accept'']),
                        maxTtl = None, minTtl = None,
                        queryStringBehavior = Some QueryString_all \<rparr>
                      (override_of props imageCachePolicyProps)),
                 ch @ [''ImageCachePolicy'']))
      in case cachePolicy' of
           Inl e \<Rightarrow> (Inl e, ch1)
         | Inr cachePolicy'' \<Rightarrow>
     (let (responseHeadersPolicy', ch2) =
            (case Option.bind imageBehaviorOptions' responseHeadersPolicy of
               Some policy \<Rightarrow> (policy, ch1)
             | None \<Rightarrow>
                (ResponseHeadersPolicy ''ImageResponseHeadersPolicy''
                   (spreadResponseHeadersPolicyProps
                      \<lparr> rhp_comment =
                          Some (''Nextjs Image Response Headers Policy for '' @ stackName),
                        corsBehavior = None, customHeadersBehavior = None,
                        removeHeaders = None, responseHeadersPolicyName = None,
                        securityHeadersBehavior = Some commonSecurityHeadersBehavior,
                        serverTimingSamplingRate = None \<rparr>
                      (override_of props imageResponseHeadersPolicyProps)),
                 ch1 @ [''ImageResponseHeadersPolicy'']))
      in (Inr (spreadBehaviorOptions
            \<lparr> allowedMethods = Some ALLOW_GET_HEAD_OPTIONS,
              cachedMethods = Some CACHE_GET_HEAD_OPTIONS,
              cachePolicy = Some cachePolicy'',
              compress = None,
              edgeLambdas = this_edgeLambdas,
              functionAssociations = Some associations,
              originRequestPolicy = Some dynamicOriginResponsePolicy,
              responseHeadersPolicy = Some responseHeadersPolicy',
              viewerProtocolPolicy = Some REDIRECT_TO_HTTPS,
              origin = dynamicOrigin \<rparr>
            imageBehaviorOptions'),
          ch2)))"

text \<open>Creates or uses the user specified distribution.\<close>

definition getDistribution ::
  "string \<Rightarrow> NextjsDistributionProps \<Rightarrow> BehaviorOptions \<Rightarrow> construct_id list
    \<Rightarrow> Distribution \<times> construct_id list" where
  "getDistribution stackName props this_dynamicBehaviorOptions ch =
     (case distribution props of
        Some d \<Rightarrow> (d, ch)
      | None \<Rightarrow>
         (Distribution ''Distribution''
            (spreadDistributionProps
               \<lparr> odp_minimumProtocolVersion = Some TLS_V1_2_2021,
                 odp_defaultBehavior = Some this_dynamicBehaviorOptions,
                 odp_httpVersion = Some HTTP2_AND_3,
                 odp_comment = Some (''cdk-nextjs Distribution for '' @ stackName) \<rparr>
               (override_of props distributionProps)),
          ch @ [''Distribution'']))"

text \<open>
  \<^verbatim>\<open>this.distribution.addBehavior(pathPattern, origin, behaviorOptions)\<close>: the
  distribution rejects the path pattern \<^verbatim>\<open>*\<close> and records every other call.
\<close>

definition addBehavior ::
  "string \<Rightarrow> IOrigin \<Rightarrow> BehaviorOptions \<Rightarrow> NextjsDistribution \<Rightarrow> error + NextjsDistribution" where
  "addBehavior pathPattern orig behaviorOptions this =
     (if pathPattern = ''*'' then Inl (CdkError StarPathPattern)
      else Inr (this \<lparr> addBehaviorCalls :=
                        addBehaviorCalls this @ [(pathPattern, orig, behaviorOptions)] \<rparr>))"

text \<open>Optionally prepends base path to given path pattern.\<close>

definition getPathPattern :: "NextjsDistributionProps \<Rightarrow> string \<Rightarrow> string" where
  "getPathPattern props pathPattern =
     (case basePath props of
        None \<Rightarrow> pathPattern
      | Some b \<Rightarrow> if b \<noteq> [] then b @ ''/'' @ pathPattern else pathPattern)"

text \<open>
  The character class of the regular expression
  \<^verbatim>\<open>/^[a-zA-Z0-9_\-.*$/~"'@:+?&]+$/\<close>; \<open>CHR 0x22\<close> is the double quote and
  \<open>CHR 0x27\<close> the single quote.
\<close>

definition pathPatternChar :: "char \<Rightarrow> bool" where
  "pathPatternChar c =
     (let n = (of_char c :: nat)
      in (of_char CHR ''a'' \<le> n \<and> n \<le> of_char CHR ''z'')
       \<or> (of_char CHR ''A'' \<le> n \<and> n \<le> of_char CHR ''Z'')
       \<or> (of_char CHR ''0'' \<le> n \<and> n \<le> of_char CHR ''9'')
       \<or> c \<in> set ''_-.*$/~''
       \<or> c = CHR 0x22 \<or> c = CHR 0x27
       \<or> c \<in> set ''@:+?&'')"

text \<open>\<^verbatim>\<open>/^[...]+$/.test(pathPattern)\<close>: one character or more, each of the class.\<close>

definition pathPatternRegex_test :: "string \<Rightarrow> bool" where
  "pathPatternRegex_test pathPattern = (pathPattern \<noteq> [] \<and> list_all pathPatternChar pathPattern)"

text \<open>
  The constant \<^verbatim>\<open>pathPattern\<close> of the loop body:
  \<^verbatim>\<open>publicFile.isDirectory ? `${publicFile.name}/*` : publicFile.name\<close>.
\<close>

definition publicFilePathPattern :: "PublicDirEntry \<Rightarrow> string" where
  "publicFilePathPattern publicFile =
     (if isDirectory publicFile then name publicFile @ ''/*'' else name publicFile)"

text \<open>The loop of \<^verbatim>\<open>addStaticBehaviors\<close> over \<^verbatim>\<open>this.props.publicDirEntries\<close>.\<close>

fun addStaticBehaviors_loop ::
  "NextjsDistributionProps \<Rightarrow> IOrigin \<Rightarrow> BehaviorOptions \<Rightarrow> PublicDirEntry list
    \<Rightarrow> NextjsDistribution \<Rightarrow> (error + unit) \<times> NextjsDistribution" where
  "addStaticBehaviors_loop props staticOrigin this_staticBehaviorOptions [] this = (Inr (), this)"
| "addStaticBehaviors_loop props staticOrigin this_staticBehaviorOptions (publicFile # rest) this =
     (let pathPattern = publicFilePathPattern publicFile
      in if \<not> pathPatternRegex_test pathPattern
         then (Inl (InvalidPathPattern pathPattern), this)
         else
           (let finalPathPattern = getPathPattern props pathPattern
            in case addBehavior finalPathPattern staticOrigin this_staticBehaviorOptions this of
                 Inl e \<Rightarrow> (Inl e, this)
               | Inr this1 \<Rightarrow>
                  addStaticBehaviors_loop props staticOrigin this_staticBehaviorOptions rest
                    this1))"

definition addStaticBehaviors ::
  "NextjsDistributionProps \<Rightarrow> IOrigin \<Rightarrow> BehaviorOptions \<Rightarrow> NextjsDistribution
    \<Rightarrow> (error + unit) \<times> NextjsDistribution" where
  "addStaticBehaviors props staticOrigin this_staticBehaviorOptions this =
     (case addBehavior ''_next/static*'' staticOrigin this_staticBehaviorOptions this of
        Inl e \<Rightarrow> (Inl e, this)
      | Inr this1 \<Rightarrow>
         if length (publicDirEntries props) \<ge> 22
         then (Inl ConfigurationLimitExceeded, this1)
         else addStaticBehaviors_loop props staticOrigin this_staticBehaviorOptions
                (publicDirEntries props) this1)"

definition addDynamicBehaviors ::
  "NextjsDistributionProps \<Rightarrow> BehaviorOptions \<Rightarrow> BehaviorOptions \<Rightarrow> NextjsDistribution
    \<Rightarrow> (error + unit) \<times> NextjsDistribution" where
  "addDynamicBehaviors props this_imageBehaviorOptions this_dynamicBehaviorOptions this =
     (case addBehavior (getPathPattern props ''_next/image*'')
             (origin this_imageBehaviorOptions) this_imageBehaviorOptions this of
        Inl e \<Rightarrow> (Inl e, this)
      | Inr this1 \<Rightarrow>
         (case basePath props of
            None \<Rightarrow> (Inr (), this1)
          | Some b \<Rightarrow>
             if b \<noteq> []
             then (case addBehavior b (origin this_dynamicBehaviorOptions)
                          this_dynamicBehaviorOptions this1 of
                     Inl e \<Rightarrow> (Inl e, this1)
                   | Inr this2 \<Rightarrow>
                      (case addBehavior (getPathPattern props ''*'')
                              (origin this_dynamicBehaviorOptions)
                              this_dynamicBehaviorOptions this2 of
                         Inl e \<Rightarrow> (Inl e, this2)
                       | Inr this3 \<Rightarrow> (Inr (), this3)))
             else (Inr (), this1)))"

subsection \<open>The constructor\<close>

text \<open>
  The constructor returns \<open>Inr ()\<close> or the error thrown, together with the state of the
  instance at that moment. \<open>stackName\<close> is \<^verbatim>\<open>Stack.of(this).stackName\<close>.
\<close>

definition "constructor" ::
  "string \<Rightarrow> NextjsDistributionProps \<Rightarrow> (error + unit) \<times> NextjsDistribution" where
  "constructor stackName props =
     (let staticOrigin = createStaticOrigin props;
          isFunctionCompute = (nextjsType props = GLOBAL_FUNCTIONS);
          dynamicOrigin = createDynamicOrigin props isFunctionCompute;
          dynamicOriginResponsePolicy = createDynamicOriginRequestPolicy isFunctionCompute;
          (associations, ch1) = createDynamicCloudFrontFunctionAssociations isFunctionCompute []
      in case (if isFunctionCompute
               then (case createEdgeLambdas props ch1 of
                       Inl e \<Rightarrow> Inl e
                     | Inr (lambdas, ch) \<Rightarrow> Inr (Some lambdas, ch))
               else Inr (None, ch1)) of
           Inl e \<Rightarrow>
             (Inl e, \<lparr> children = ch1, this_distribution = None, addBehaviorCalls = [] \<rparr>)
         | Inr (this_edgeLambdas, ch2) \<Rightarrow>
            (let (this_staticBehaviorOptions, ch3) =
                   createStaticBehaviorOptions stackName props staticOrigin ch2
             in case createDynamicBehaviorOptions stackName props this_edgeLambdas associations
                       dynamicOrigin dynamicOriginResponsePolicy ch3 of
                  (Inl e, ch4) \<Rightarrow>
                    (Inl e, \<lparr> children = ch4, this_distribution = None,
                              addBehaviorCalls = [] \<rparr>)
                | (Inr this_dynamicBehaviorOptions, ch4) \<Rightarrow>
                   (case createImageBehaviorOptions stackName props this_edgeLambdas
                           associations dynamicOrigin dynamicOriginResponsePolicy ch4 of
                      (Inl e, ch5) \<Rightarrow>
                        (Inl e, \<lparr> children = ch5, this_distribution = None,
                                  addBehaviorCalls = [] \<rparr>)
                    | (Inr this_imageBehaviorOptions, ch5) \<Rightarrow>
                       (let (dist, ch6) =
                              getDistribution stackName props this_dynamicBehaviorOptions ch5;
                            this0 = \<lparr> children = ch6, this_distribution = Some dist,
                                      addBehaviorCalls = [] \<rparr>
                        in case addStaticBehaviors props staticOrigin
                                  this_staticBehaviorOptions this0 of
                             (Inl e, this1) \<Rightarrow> (Inl e, this1)
                           | (Inr u, this1) \<Rightarrow>
                              (case addDynamicBehaviors props this_imageBehaviorOptions
                                      this_dynamicBehaviorOptions this1 of
                                 (Inl e, this2) \<Rightarrow> (Inl e, this2)
                               | (Inr u', this2) \<Rightarrow>
                                  (Inr (),
                                   this2 \<lparr> children :=
                                     children this2 @ [''DistributionDomainName''] \<rparr>))))))"

text \<open>The path patterns of the \<^verbatim>\<open>addBehavior\<close> calls made, in call order.\<close>

definition emittedPatterns :: "NextjsDistribution \<Rightarrow> string list" where
  "emittedPatterns this = map fst (addBehaviorCalls this)"

subsection \<open>Notions used in the statements\<close>

text \<open>A public directory entry whose path pattern passes the test of the loop.\<close>

definition validEntry :: "PublicDirEntry \<Rightarrow> bool" where
  "validEntry e = pathPatternRegex_test (publicFilePathPattern e)"

text \<open>
  The two path patterns that \<^verbatim>\<open>addDynamicBehaviors\<close> adds after the image pattern when the
  base path is truthy: the base path itself and the base path followed by \<^verbatim>\<open>/*\<close>.
\<close>

definition basePathRules :: "NextjsDistributionProps \<Rightarrow> string list" where
  "basePathRules props =
     (case basePath props of
        None \<Rightarrow> []
      | Some b \<Rightarrow> if b \<noteq> [] then [b, b @ ''/*''] else [])"

text \<open>The protocol policy that an origin was built with.\<close>

definition originProtocolPolicy :: "IOrigin \<Rightarrow> OriginProtocolPolicy option" where
  "originProtocolPolicy orig =
     (case orig of
        HttpOrigin domainName httpOriginProps \<Rightarrow> protocolPolicy httpOriginProps
      | S3BucketOrigin_withOriginAccessControl bucket s3Props \<Rightarrow> None)"

text \<open>The construct that is created when the user has supplied no value, none otherwise.\<close>

definition absent :: "'a option \<Rightarrow> construct_id \<Rightarrow> construct_id list" where
  "absent ov cid = (case ov of None \<Rightarrow> [cid] | Some v \<Rightarrow> [])"

text \<open>
  The constructs that the constructor can register under the instance before it creates the
  output: the static response headers policy is among them only where the user has supplied
  none.
\<close>

definition possibleChildren :: "NextjsDistributionProps \<Rightarrow> construct_id list" where
  "possibleChildren props =
     [''CloudFrontFn'', ''SignFnUrl''] @
     absent (Option.bind (override_of props staticBehaviorOptions) responseHeadersPolicy)
       ''StaticResponseHeadersPolicy'' @
     [''DynamicCachePolicy'', ''DynamicResponseHeadersPolicy'', ''ImageCachePolicy'',
      ''ImageResponseHeadersPolicy'', ''Distribution'']"

text \<open>
  A public directory entry that the loop body gets past: its path pattern passes the test
  and the distribution accepts the final path pattern.
\<close>

definition accepted :: "NextjsDistributionProps \<Rightarrow> PublicDirEntry \<Rightarrow> bool" where
  "accepted props e =
     (validEntry e \<and> getPathPattern props (publicFilePathPattern e) \<noteq> ''*'')"

text \<open>
  The last part of the constructor, from the call of \<^verbatim>\<open>addStaticBehaviors\<close> to the output
  \<^verbatim>\<open>DistributionDomainName\<close>, for given behavior options and a given state of the instance.
\<close>

definition addBehaviorsAndOutput ::
  "NextjsDistributionProps \<Rightarrow> IOrigin \<Rightarrow> BehaviorOptions \<Rightarrow> BehaviorOptions \<Rightarrow> BehaviorOptions
    \<Rightarrow> NextjsDistribution \<Rightarrow> (error + unit) \<times> NextjsDistribution" where
  "addBehaviorsAndOutput props staticOrigin sbo dbo ibo this0 =
     (case addStaticBehaviors props staticOrigin sbo this0 of
        (Inl e, this1) \<Rightarrow> (Inl e, this1)
      | (Inr u, this1) \<Rightarrow>
         (case addDynamicBehaviors props ibo dbo this1 of
            (Inl e, this2) \<Rightarrow> (Inl e, this2)
          | (Inr u', this2) \<Rightarrow>
             (Inr (), this2 \<lparr> children := children this2 @ [''DistributionDomainName''] \<rparr>)))"

text \<open>The characters of the base path; none when there is no base path.\<close>

definition basePathChars :: "NextjsDistributionProps \<Rightarrow> string" where
  "basePathChars props = (case basePath props of None \<Rightarrow> [] | Some b \<Rightarrow> b)"

text \<open>
  The properties that \<^verbatim>\<open>createStaticBehaviorOptions\<close> and
  \<^verbatim>\<open>createDynamicBehaviorOptions\<close> write in front of the spread when they build the
  default response headers policy.
\<close>

definition staticResponseHeadersPolicyDefaults :: "string \<Rightarrow> ResponseHeadersPolicyProps" where
  "staticResponseHeadersPolicyDefaults stackName =
     \<lparr> rhp_comment = Some (''Nextjs Static Response Headers Policy for '' @ stackName),
       corsBehavior = None, customHeadersBehavior = None, removeHeaders = None,
       responseHeadersPolicyName = None,
       securityHeadersBehavior = Some commonSecurityHeadersBehavior,
       serverTimingSamplingRate = None \<rparr>"

definition dynamicResponseHeadersPolicyDefaults :: "string \<Rightarrow> ResponseHeadersPolicyProps" where
  "dynamicResponseHeadersPolicyDefaults stackName =
     \<lparr> rhp_comment = Some (''Nextjs Dynamic Response Headers Policy for '' @ stackName),
       corsBehavior = None, customHeadersBehavior = None, removeHeaders = None,
       responseHeadersPolicyName = None,
       securityHeadersBehavior = Some commonSecurityHeadersBehavior,
       serverTimingSamplingRate = None \<rparr>"

subsection \<open>Concrete inputs\<close>

text \<open>
  A container deployment without base path, certificate or overrides, with the public
  directory entries \<^verbatim>\<open>[{name: "a", isDirectory: false}, {name: "b", isDirectory: true}]\<close>.
\<close>

definition exampleProps :: NextjsDistributionProps where
  "exampleProps =
     \<lparr> assetsBucket = ''assets-bucket'', basePath = None, certificate = None,
       distribution = None, dynamicUrl = ''https://server.example.com'',
       functionArn = None, nextjsType = GLOBAL_CONTAINERS, overrides = None,
       publicDirEntries =
         [\<lparr> name = ''a'', isDirectory = False \<rparr>, \<lparr> name = ''b'', isDirectory = True \<rparr>] \<rparr>"

definition noOverrides :: NextjsDistributionOverrides where
  "noOverrides =
     \<lparr> edgeFunctionProps = None, distributionProps = None, imageBehaviorOptions = None,
       imageCachePolicyProps = None, imageResponseHeadersPolicyProps = None,
       dynamicBehaviorOptions = None, dynamicCachePolicyProps = None,
       dynamicResponseHeadersPolicyProps = None, dynamicHttpOriginProps = None,
       staticBehaviorOptions = None, staticResponseHeadersPolicyProps = None,
       s3BucketOriginProps = None \<rparr>"

definition noResponseHeadersPolicyProps :: ResponseHeadersPolicyProps where
  "noResponseHeadersPolicyProps =
     \<lparr> rhp_comment = None, corsBehavior = None, customHeadersBehavior = None,
       removeHeaders = None, responseHeadersPolicyName = None,
       securityHeadersBehavior = None, serverTimingSamplingRate = None \<rparr>"

definition noAddBehaviorOptions :: AddBehaviorOptions where
  "noAddBehaviorOptions =
     \<lparr> allowedMethods = None, cachedMethods = None, cachePolicy = None, compress = None,
       edgeLambdas = None, functionAssociations = None, originRequestPolicy = None,
       responseHeadersPolicy = None, viewerProtocolPolicy = None \<rparr>"

definition noHttpOriginProps :: HttpOriginProps where
  "noHttpOriginProps =
     \<lparr> protocolPolicy = None, httpPort = None, httpsPort = None, originPath = None,
       readTimeout = None, keepaliveTimeout = None \<rparr>"

text \<open>Twenty-two files \<^verbatim>\<open>a\<close> to \<^verbatim>\<open>v\<close>, and the same with the last one named \<^verbatim>\<open>!\<close>.\<close>

definition files :: "string \<Rightarrow> PublicDirEntry list" where
  "files names = map (\<lambda>c. \<lparr> name = [c], isDirectory = False \<rparr>) names"

definition twentyTwoFiles :: "PublicDirEntry list" where
  "twentyTwoFiles = files ''abcdefghijklmnopqrstuv''"

definition twentyTwoFilesOneInvalid :: "PublicDirEntry list" where
  "twentyTwoFilesOneInvalid = files ''abcdefghijklmnopqrstu!''"

text \<open>Three entries, the second with a space and an exclamation mark in its name.\<close>

definition propsInvalidSecond :: NextjsDistributionProps where
  "propsInvalidSecond =
     exampleProps \<lparr> publicDirEntries :=
       [\<lparr> name = ''a'', isDirectory = False \<rparr>,
        \<lparr> name = ''bad name!.png'', isDirectory = False \<rparr>,
        \<lparr> name = ''c'', isDirectory = True \<rparr>] \<rparr>"

text \<open>Two entries, both with a character outside the grammar.\<close>

definition propsTwoInvalid :: NextjsDistributionProps where
  "propsTwoInvalid =
     exampleProps \<lparr> publicDirEntries :=
       [\<lparr> name = ''a b'', isDirectory = True \<rparr>,
        \<lparr> name = ''bad name!.png'', isDirectory = False \<rparr>] \<rparr>"

text \<open>
  The example with the base path \<^verbatim>\<open>app\<close>; with a comment as the only property of
  \<^verbatim>\<open>dynamicResponseHeadersPolicyProps\<close>; as a function deployment whose
  \<^verbatim>\<open>dynamicHttpOriginProps\<close> carry a protocol policy; with a response headers policy in
  \<^verbatim>\<open>staticBehaviorOptions\<close>; with a comment as the only property of
  \<^verbatim>\<open>staticResponseHeadersPolicyProps\<close>.
\<close>

definition propsBasePath :: NextjsDistributionProps where
  "propsBasePath = exampleProps \<lparr> basePath := Some ''app'' \<rparr>"

definition propsDynamicComment :: NextjsDistributionProps where
  "propsDynamicComment =
     exampleProps \<lparr> overrides := Some (noOverrides \<lparr> dynamicResponseHeadersPolicyProps :=
       Some (noResponseHeadersPolicyProps \<lparr> rhp_comment := Some ''custom comment'' \<rparr>) \<rparr>) \<rparr>"

definition propsHttpOverride :: NextjsDistributionProps where
  "propsHttpOverride =
     exampleProps \<lparr> nextjsType := GLOBAL_FUNCTIONS,
       functionArn := Some ''arn:aws:lambda:us-east-1:123456789012:function:server'',
       overrides := Some (noOverrides \<lparr> dynamicHttpOriginProps :=
         Some (noHttpOriginProps \<lparr> protocolPolicy := Some HTTP_ONLY \<rparr>) \<rparr>) \<rparr>"

definition propsStaticPolicy :: NextjsDistributionProps where
  "propsStaticPolicy =
     exampleProps \<lparr> overrides := Some (noOverrides \<lparr> staticBehaviorOptions :=
       Some (noAddBehaviorOptions \<lparr> responseHeadersPolicy :=
         Some (ImportedResponseHeadersPolicy ''my-policy-id'') \<rparr>) \<rparr>) \<rparr>"

definition propsStaticComment :: NextjsDistributionProps where
  "propsStaticComment =
     exampleProps \<lparr> overrides := Some (noOverrides \<lparr> staticResponseHeadersPolicyProps :=
       Some (noResponseHeadersPolicyProps \<lparr> rhp_comment := Some ''custom comment'' \<rparr>) \<rparr>) \<rparr>"

text \<open>
  A function deployment without \<^verbatim>\<open>functionArn\<close> and with 22 files; a container deployment
  with a certificate whose \<^verbatim>\<open>dynamicHttpOriginProps\<close> carry a protocol policy; one whose
  \<^verbatim>\<open>dynamicBehaviorOptions\<close> carry an origin request policy.
\<close>

definition propsFunctionNoArn :: NextjsDistributionProps where
  "propsFunctionNoArn =
     exampleProps \<lparr> nextjsType := GLOBAL_FUNCTIONS, publicDirEntries := twentyTwoFiles \<rparr>"

definition propsCertificateHttpOverride :: NextjsDistributionProps where
  "propsCertificateHttpOverride =
     exampleProps \<lparr> certificate := Some ''arn:aws:acm:us-east-1:123456789012:certificate/abc'',
       overrides := Some (noOverrides \<lparr> dynamicHttpOriginProps :=
         Some (noHttpOriginProps \<lparr> protocolPolicy := Some HTTP_ONLY \<rparr>) \<rparr>) \<rparr>"

definition propsOriginRequestOverride :: NextjsDistributionProps where
  "propsOriginRequestOverride =
     exampleProps \<lparr> overrides := Some (noOverrides \<lparr> dynamicBehaviorOptions :=
       Some (noAddBehaviorOptions \<lparr> originRequestPolicy :=
         Some ALL_VIEWER_EXCEPT_HOST_HEADER \<rparr>) \<rparr>) \<rparr>"

text \<open>
  An instance that has registered nothing and made no call yet, and the static behavior
  options of the example.
\<close>

definition emptyInstance :: NextjsDistribution where
  "emptyInstance = \<lparr> children = [], this_distribution = None, addBehaviorCalls = [] \<rparr>"

definition exampleStaticBehaviorOptions :: BehaviorOptions where
  "exampleStaticBehaviorOptions =
     fst (createStaticBehaviorOptions ''stack'' exampleProps (createStaticOrigin exampleProps) [])"

section \<open>Properties\<close>

subsection \<open>The errors are told apart\<close>

lemma errors_distinct:
  "ConfigurationLimitExceeded \<noteq> InvalidPathPattern p"
  "InvalidPathPattern p \<noteq> ConfigurationLimitExceeded"
  "MissingRequiredInput \<noteq> InvalidPathPattern p"
  "InvalidPathPattern p \<noteq> MissingRequiredInput"
  "MissingRequiredInput \<noteq> ConfigurationLimitExceeded"
  "ConfigurationLimitExceeded \<noteq> MissingRequiredInput"
  "ConfigurationLimitExceeded \<noteq> CdkError c"
  "CdkError c \<noteq> ConfigurationLimitExceeded"
  "InvalidPathPattern p \<noteq> CdkError c"
  "CdkError c \<noteq> InvalidPathPattern p"
  "MissingRequiredInput \<noteq> CdkError c"
  "CdkError c \<noteq> MissingRequiredInput"
  by (simp_all add: ConfigurationLimitExceeded_def InvalidPathPattern_def MissingRequiredInput_def)

lemma InvalidPathPattern_inj: "(InvalidPathPattern p = InvalidPathPattern q) = (p = q)"
  by (simp add: InvalidPathPattern_def)

subsection \<open>The methods that add behaviors\<close>

lemma addBehavior_accepts:
  "pathPattern \<noteq> ''*'' \<Longrightarrow>
   addBehavior pathPattern orig opts this =
     Inr (this \<lparr> addBehaviorCalls := addBehaviorCalls this @ [(pathPattern, orig, opts)] \<rparr>)"
  by (simp add: addBehavior_def)

lemma addBehavior_star: "addBehavior ''*'' orig opts this = Inl (CdkError StarPathPattern)"
  by (simp add: addBehavior_def)

lemma getPathPattern_star:
  "(getPathPattern props p = ''*'') = (\<not> truthy (basePath props) \<and> p = ''*'')"
proof (cases "basePath props")
  case None
  then show ?thesis by (simp add: getPathPattern_def truthy_def)
next
  case (Some b)
  then show ?thesis by (cases b) (simp_all add: getPathPattern_def truthy_def)
qed

lemma loop_result:
  "addStaticBehaviors_loop props so sbo es this =
     ((case dropWhile (accepted props) es of
         [] \<Rightarrow> Inr ()
       | e # rest \<Rightarrow>
          if validEntry e then Inl (CdkError StarPathPattern)
          else Inl (InvalidPathPattern (publicFilePathPattern e))),
      this \<lparr> addBehaviorCalls := addBehaviorCalls this @
               map (\<lambda>e. (getPathPattern props (publicFilePathPattern e), so, sbo))
                 (takeWhile (accepted props) es) \<rparr>)"
proof (induction es arbitrary: this)
  case Nil
  then show ?case by simp
next
  case (Cons e es)
  show ?case
  proof (cases "validEntry e")
    case False
    then show ?thesis by (simp add: accepted_def validEntry_def Let_def)
  next
    case v: True
    show ?thesis
    proof (cases "getPathPattern props (publicFilePathPattern e) = ''*''")
      case True
      with v show ?thesis
        by (simp add: accepted_def validEntry_def [symmetric] Let_def addBehavior_def)
    next
      case False
      with v show ?thesis
        by (simp add: accepted_def validEntry_def [symmetric] Let_def addBehavior_accepts Cons.IH)
    qed
  qed
qed

lemma addStaticBehaviors_result:
  "addStaticBehaviors props so sbo this =
     (if 22 \<le> length (publicDirEntries props)
      then (Inl ConfigurationLimitExceeded,
            this \<lparr> addBehaviorCalls := addBehaviorCalls this @ [(''_next/static*'', so, sbo)] \<rparr>)
      else ((case dropWhile (accepted props) (publicDirEntries props) of
               [] \<Rightarrow> Inr ()
             | e # rest \<Rightarrow>
                if validEntry e then Inl (CdkError StarPathPattern)
                else Inl (InvalidPathPattern (publicFilePathPattern e))),
            this \<lparr> addBehaviorCalls := addBehaviorCalls this @ (''_next/static*'', so, sbo) #
                     map (\<lambda>e. (getPathPattern props (publicFilePathPattern e), so, sbo))
                       (takeWhile (accepted props) (publicDirEntries props)) \<rparr>))"
  by (simp add: addStaticBehaviors_def addBehavior_accepts loop_result)

lemma addDynamicBehaviors_result:
  "addDynamicBehaviors props ibo dbo this =
     (if basePath props = Some ''*''
      then (Inl (CdkError StarPathPattern),
            this \<lparr> addBehaviorCalls := addBehaviorCalls this @
                     [(getPathPattern props ''_next/image*'', origin ibo, ibo)] \<rparr>)
      else (Inr (),
            this \<lparr> addBehaviorCalls := addBehaviorCalls this @
                     (getPathPattern props ''_next/image*'', origin ibo, ibo) #
                     map (\<lambda>p. (p, origin dbo, dbo)) (basePathRules props) \<rparr>))"
proof -
  have i: "getPathPattern props ''_next/image*'' \<noteq> ''*''"
    by (simp add: getPathPattern_star)
  show ?thesis
  proof (cases "basePath props")
    case None
    then show ?thesis
      by (simp add: addDynamicBehaviors_def addBehavior_accepts [OF i] basePathRules_def)
  next
    case (Some b)
    have s: "getPathPattern props ''*'' \<noteq> ''*''" if "b \<noteq> []"
      using that Some by (simp add: getPathPattern_star truthy_def)
    have g: "getPathPattern props ''*'' = b @ ''/*''" if "b \<noteq> []"
      using that Some by (simp add: getPathPattern_def)
    show ?thesis
    proof (cases "b = []")
      case True
      with Some show ?thesis
        by (simp add: addDynamicBehaviors_def addBehavior_accepts [OF i] basePathRules_def)
    next
      case False
      show ?thesis
      proof (cases "b = ''*''")
        case True
        with Some show ?thesis
          by (simp add: addDynamicBehaviors_def addBehavior_accepts [OF i] addBehavior_star)
      next
        case nstar: False
        from Some False nstar s [OF False] g [OF False] show ?thesis
          by (simp add: addDynamicBehaviors_def addBehavior_accepts [OF i] addBehavior_accepts
              basePathRules_def)
      qed
    qed
  qed
qed


subsection \<open>The methods that build the behavior options\<close>

lemma createEdgeLambdas_throws:
  "createEdgeLambdas props ch =
     Inl (if truthy (functionArn props) then CdkError InlineCodeEmpty else MissingRequiredInput)"
  by (simp add: createEdgeLambdas_def Code_fromInline_def)

lemma new_CachePolicy_Inl: "new_CachePolicy cid p = Inl e \<Longrightarrow> \<exists>c. e = CdkError c"
  by (auto simp: new_CachePolicy_def split: option.splits if_splits)

lemma createStaticBehaviorOptions_children:
  "snd (createStaticBehaviorOptions sn props so ch) =
     ch @ absent (Option.bind (override_of props staticBehaviorOptions) responseHeadersPolicy)
            ''StaticResponseHeadersPolicy''"
  by (simp add: createStaticBehaviorOptions_def Let_def split_beta absent_def split: option.splits)

lemma createDynamicBehaviorOptions_children:
  "set (snd (createDynamicBehaviorOptions sn props el fa dyn pol ch)) \<subseteq>
     set ch \<union> set [''DynamicCachePolicy'', ''DynamicResponseHeadersPolicy'']"
  by (auto simp: createDynamicBehaviorOptions_def Let_def split_beta
        split: option.splits sum.splits)

lemma createDynamicBehaviorOptions_Inl:
  "fst (createDynamicBehaviorOptions sn props el fa dyn pol ch) = Inl e \<Longrightarrow> \<exists>c. e = CdkError c"
  by (auto simp: createDynamicBehaviorOptions_def Let_def split_beta
        split: option.splits sum.splits dest: new_CachePolicy_Inl)

lemma createImageBehaviorOptions_children:
  "set (snd (createImageBehaviorOptions sn props el fa dyn pol ch)) \<subseteq>
     set ch \<union> set [''ImageCachePolicy'', ''ImageResponseHeadersPolicy'']"
  by (auto simp: createImageBehaviorOptions_def Let_def split_beta
        split: option.splits sum.splits)

lemma createImageBehaviorOptions_Inl:
  "fst (createImageBehaviorOptions sn props el fa dyn pol ch) = Inl e \<Longrightarrow> \<exists>c. e = CdkError c"
  by (auto simp: createImageBehaviorOptions_def Let_def split_beta
        split: option.splits sum.splits dest: new_CachePolicy_Inl)

lemma getDistribution_children:
  "snd (getDistribution sn props dbo ch) = ch @ absent (distribution props) ''Distribution''"
  by (simp add: getDistribution_def absent_def split: option.splits)

lemma absent_subset: "set (absent ov cid) \<subseteq> {cid}"
  by (auto simp: absent_def split: option.splits)

lemma possibleChildren_set:
  "set (possibleChildren props) =
     {''CloudFrontFn'', ''SignFnUrl''} \<union>
     set (absent (Option.bind (override_of props staticBehaviorOptions) responseHeadersPolicy)
            ''StaticResponseHeadersPolicy'') \<union>
     set [''DynamicCachePolicy'', ''DynamicResponseHeadersPolicy''] \<union>
     set [''ImageCachePolicy'', ''ImageResponseHeadersPolicy''] \<union> {''Distribution''}"
  by (auto simp: possibleChildren_def)

subsection \<open>The constructor: an early throw, or the calls that add behaviors\<close>

lemma constructor_cases [case_names early tail]:
  assumes early: "\<And>e ch. e = MissingRequiredInput \<or> (\<exists>c. e = CdkError c) \<Longrightarrow>
      set ch \<subseteq> set (possibleChildren props) \<Longrightarrow>
      P (Inl e, \<lparr> children = ch, this_distribution = None, addBehaviorCalls = [] \<rparr>)"
    and tail: "\<And>sbo dbo ibo this0. addBehaviorCalls this0 = [] \<Longrightarrow>
      set (children this0) \<subseteq> set (possibleChildren props) \<Longrightarrow>
      nextjsType props \<noteq> GLOBAL_FUNCTIONS \<Longrightarrow>
      P (addBehaviorsAndOutput props (createStaticOrigin props) sbo dbo ibo this0)"
  shows "P (constructor stackName props)"
proof (cases "nextjsType props = GLOBAL_FUNCTIONS")
  case True
  have c: "constructor stackName props =
      (Inl (if truthy (functionArn props) then CdkError InlineCodeEmpty else MissingRequiredInput),
       \<lparr> children = [''CloudFrontFn''], this_distribution = None, addBehaviorCalls = [] \<rparr>)"
    by (simp add: constructor_def True createDynamicCloudFrontFunctionAssociations_def
        createEdgeLambdas_throws)
  show ?thesis
    unfolding c by (rule early) (auto simp: possibleChildren_def)
next
  case False
  define so where "so = createStaticOrigin props"
  define dyn where "dyn = createDynamicOrigin props False"
  define pol where "pol = createDynamicOriginRequestPolicy False"
  define sbo where "sbo = fst (createStaticBehaviorOptions stackName props so [])"
  define ch3 where "ch3 = snd (createStaticBehaviorOptions stackName props so [])"
  define r4 where "r4 = fst (createDynamicBehaviorOptions stackName props None [] dyn pol ch3)"
  define ch4 where "ch4 = snd (createDynamicBehaviorOptions stackName props None [] dyn pol ch3)"
  define r5 where "r5 = fst (createImageBehaviorOptions stackName props None [] dyn pol ch4)"
  define ch5 where "ch5 = snd (createImageBehaviorOptions stackName props None [] dyn pol ch4)"
  have s3: "set ch3 \<subseteq> set (possibleChildren props)"
    by (auto simp: ch3_def createStaticBehaviorOptions_children possibleChildren_set)
  have s4: "set ch4 \<subseteq> set (possibleChildren props)"
    using s3 createDynamicBehaviorOptions_children [of stackName props None "[]" dyn pol ch3]
    unfolding ch4_def possibleChildren_set by blast
  have s5: "set ch5 \<subseteq> set (possibleChildren props)"
    using s4 createImageBehaviorOptions_children [of stackName props None "[]" dyn pol ch4]
    unfolding ch5_def possibleChildren_set by blast
  have unfolded: "constructor stackName props =
      (case r4 of
         Inl e \<Rightarrow> (Inl e, \<lparr> children = ch4, this_distribution = None, addBehaviorCalls = [] \<rparr>)
       | Inr dbo \<Rightarrow>
          (case r5 of
             Inl e \<Rightarrow>
               (Inl e, \<lparr> children = ch5, this_distribution = None, addBehaviorCalls = [] \<rparr>)
           | Inr ibo \<Rightarrow>
              (case addStaticBehaviors props so sbo
                      \<lparr> children = snd (getDistribution stackName props dbo ch5),
                        this_distribution = Some (fst (getDistribution stackName props dbo ch5)),
                        addBehaviorCalls = [] \<rparr> of
                 (Inl e, this1) \<Rightarrow> (Inl e, this1)
               | (Inr u, this1) \<Rightarrow>
                  (case addDynamicBehaviors props ibo dbo this1 of
                     (Inl e, this2) \<Rightarrow> (Inl e, this2)
                   | (Inr u', this2) \<Rightarrow>
                      (Inr (),
                       this2 \<lparr> children := children this2 @ [''DistributionDomainName''] \<rparr>)))))"
    by (simp add: constructor_def False createDynamicCloudFrontFunctionAssociations_def Let_def
        split_beta so_def dyn_def pol_def sbo_def ch3_def r4_def ch4_def r5_def ch5_def
        split: sum.splits)
  show ?thesis
  proof (cases r4)
    case (Inl e)
    then have "\<exists>c. e = CdkError c"
      using createDynamicBehaviorOptions_Inl [of stackName props None "[]" dyn pol ch3 e]
      by (simp add: r4_def)
    with Inl s4 show ?thesis
      unfolding unfolded by (auto intro: early)
  next
    case r4: (Inr dbo)
    show ?thesis
    proof (cases r5)
      case (Inl e)
      then have "\<exists>c. e = CdkError c"
        using createImageBehaviorOptions_Inl [of stackName props None "[]" dyn pol ch4 e]
        by (simp add: r5_def)
      with Inl r4 s5 show ?thesis
        unfolding unfolded by (auto intro: early)
    next
      case (Inr ibo)
      have s6: "set (snd (getDistribution stackName props dbo ch5)) \<subseteq> set (possibleChildren props)"
      proof -
        have "set (absent (distribution props) ''Distribution'') \<subseteq> set (possibleChildren props)"
          using absent_subset [of "distribution props" "''Distribution''"]
          unfolding possibleChildren_set by blast
        with s5 show ?thesis
          by (simp add: getDistribution_children)
      qed
      define this0 where
        "this0 = \<lparr> children = snd (getDistribution stackName props dbo ch5),
                   this_distribution = Some (fst (getDistribution stackName props dbo ch5)),
                   addBehaviorCalls = [] \<rparr>"
      have eq: "constructor stackName props =
        addBehaviorsAndOutput props (createStaticOrigin props) sbo dbo ibo this0"
        unfolding unfolded r4 Inr this0_def so_def addBehaviorsAndOutput_def by simp
      have a: "addBehaviorCalls this0 = []"
        by (simp add: this0_def)
      have b: "set (children this0) \<subseteq> set (possibleChildren props)"
        using s6 by (simp add: this0_def)
      show ?thesis
        unfolding eq using a b False by (rule tail)
    qed
  qed
qed


subsection \<open>The constructor of a container deployment with a short stack name\<close>

lemma spreadBehaviorOptions_origin: "origin (spreadBehaviorOptions d ov) = origin d"
  by (simp add: spreadBehaviorOptions_def split: option.splits)

lemma createDynamicBehaviorOptions_succeeds:
  assumes "override_of props dynamicCachePolicyProps = None" and "length stackName \<le> 96"
  shows "\<exists>dbo. fst (createDynamicBehaviorOptions stackName props el fa dyn pol ch) = Inr dbo \<and>
           origin dbo = dyn"
  using assms
  by (auto simp: createDynamicBehaviorOptions_def Let_def split_beta new_CachePolicy_def
        spreadCachePolicyProps_def spreadBehaviorOptions_origin split: option.splits sum.splits)

lemma createImageBehaviorOptions_succeeds:
  assumes "override_of props imageCachePolicyProps = None" and "length stackName \<le> 96"
  shows "\<exists>ibo. fst (createImageBehaviorOptions stackName props el fa dyn pol ch) = Inr ibo \<and>
           origin ibo = dyn"
  using assms
  by (auto simp: createImageBehaviorOptions_def Let_def split_beta new_CachePolicy_def
        spreadCachePolicyProps_def spreadBehaviorOptions_origin split: option.splits sum.splits)

lemma constructor_container:
  assumes c: "nextjsType props \<noteq> GLOBAL_FUNCTIONS"
    and d: "override_of props dynamicCachePolicyProps = None"
    and i: "override_of props imageCachePolicyProps = None"
    and l: "length stackName \<le> 96"
  shows "\<exists>sbo dbo ibo this0.
           addBehaviorCalls this0 = [] \<and>
           origin dbo = createDynamicOrigin props False \<and>
           origin ibo = createDynamicOrigin props False \<and>
           constructor stackName props =
             addBehaviorsAndOutput props (createStaticOrigin props) sbo dbo ibo this0"
proof -
  define so where "so = createStaticOrigin props"
  define dyn where "dyn = createDynamicOrigin props False"
  define pol where "pol = createDynamicOriginRequestPolicy False"
  define sbo where "sbo = fst (createStaticBehaviorOptions stackName props so [])"
  define ch3 where "ch3 = snd (createStaticBehaviorOptions stackName props so [])"
  define ch4 where "ch4 = snd (createDynamicBehaviorOptions stackName props None [] dyn pol ch3)"
  define ch5 where "ch5 = snd (createImageBehaviorOptions stackName props None [] dyn pol ch4)"
  from createDynamicBehaviorOptions_succeeds [OF d l, of None "[]" dyn pol ch3]
  obtain dbo where dbo: "fst (createDynamicBehaviorOptions stackName props None [] dyn pol ch3) = Inr dbo"
    and odbo: "origin dbo = dyn" by blast
  from createImageBehaviorOptions_succeeds [OF i l, of None "[]" dyn pol ch4]
  obtain ibo where ibo: "fst (createImageBehaviorOptions stackName props None [] dyn pol ch4) = Inr ibo"
    and oibo: "origin ibo = dyn" by blast
  define this0 where
    "this0 = \<lparr> children = snd (getDistribution stackName props dbo ch5),
               this_distribution = Some (fst (getDistribution stackName props dbo ch5)),
               addBehaviorCalls = [] \<rparr>"
  have eq: "constructor stackName props = addBehaviorsAndOutput props so sbo dbo ibo this0"
    using dbo ibo
    by (simp add: addBehaviorsAndOutput_def constructor_def c createDynamicCloudFrontFunctionAssociations_def Let_def
        split_beta so_def [symmetric] dyn_def [symmetric] pol_def [symmetric] sbo_def ch3_def
        ch4_def ch5_def this0_def split: sum.splits)
  have "addBehaviorCalls this0 = []"
    by (simp add: this0_def)
  with odbo oibo eq show ?thesis
    unfolding so_def dyn_def by blast
qed

subsection \<open>From the call of \<^verbatim>\<open>addStaticBehaviors\<close> on\<close>

lemma dropWhile_accepted_Nil:
  "(dropWhile (accepted props) es = []) = list_all (accepted props) es"
  by (simp add: dropWhile_eq_Nil_conv list_all_iff)

lemma takeWhile_all: "list_all P es \<Longrightarrow> takeWhile P es = es"
  by (induction es) simp_all

lemma dropWhile_all: "list_all P es \<Longrightarrow> dropWhile P es = []"
  by (induction es) simp_all

lemma takeWhile_accepted_invalid:
  "dropWhile (accepted props) es = e # rest \<Longrightarrow> \<not> validEntry e \<Longrightarrow>
   takeWhile (accepted props) es = takeWhile validEntry es"
  by (induction es) (auto simp: accepted_def split: if_splits)

lemma first_invalid:
  "dropWhile (accepted props) es = e # rest \<Longrightarrow> \<not> validEntry e \<Longrightarrow>
   es = takeWhile validEntry es @ e # rest \<and> list_all (accepted props) (takeWhile validEntry es)"
proof -
  assume d: "dropWhile (accepted props) es = e # rest" and v: "\<not> validEntry e"
  have "es = takeWhile (accepted props) es @ dropWhile (accepted props) es"
    by simp
  moreover have "list_all (accepted props) (takeWhile (accepted props) es)"
    by (simp add: list_all_iff) (meson set_takeWhileD)
  ultimately show ?thesis
    using d takeWhile_accepted_invalid [OF d v] by simp
qed

lemma dropWhile_accepted_first:
  "list_all (accepted props) pre \<Longrightarrow> \<not> accepted props e \<Longrightarrow>
   dropWhile (accepted props) (pre @ e # post) = e # post"
  by (induction pre) simp_all

lemma tail_fst:
  "fst (addBehaviorsAndOutput props so sbo dbo ibo this0) =
     (if 22 \<le> length (publicDirEntries props) then Inl ConfigurationLimitExceeded
      else case dropWhile (accepted props) (publicDirEntries props) of
             [] \<Rightarrow> if basePath props = Some ''*'' then Inl (CdkError StarPathPattern) else Inr ()
           | e # rest \<Rightarrow>
              if validEntry e then Inl (CdkError StarPathPattern)
              else Inl (InvalidPathPattern (publicFilePathPattern e)))"
proof (cases "dropWhile (accepted props) (publicDirEntries props)")
  case Nil
  then have "list_all (accepted props) (publicDirEntries props)"
    by (simp add: list_all_iff)
  then show ?thesis
    by (simp add: addBehaviorsAndOutput_def addStaticBehaviors_result addDynamicBehaviors_result
        dropWhile_all takeWhile_all)
next
  case (Cons e rest)
  then show ?thesis
    by (simp add: addBehaviorsAndOutput_def addStaticBehaviors_result)
qed

lemma tail_calls:
  "addBehaviorCalls (snd (addBehaviorsAndOutput props so sbo dbo ibo this0)) =
     addBehaviorCalls this0 @ (''_next/static*'', so, sbo) #
       (if 22 \<le> length (publicDirEntries props) then []
        else map (\<lambda>e. (getPathPattern props (publicFilePathPattern e), so, sbo))
               (takeWhile (accepted props) (publicDirEntries props)) @
             (if list_all (accepted props) (publicDirEntries props)
              then (getPathPattern props ''_next/image*'', origin ibo, ibo) #
                   (if basePath props = Some ''*'' then []
                    else map (\<lambda>p. (p, origin dbo, dbo)) (basePathRules props))
              else []))"
proof (cases "dropWhile (accepted props) (publicDirEntries props)")
  case Nil
  then have "list_all (accepted props) (publicDirEntries props)"
    by (simp add: list_all_iff)
  then show ?thesis
    by (simp add: addBehaviorsAndOutput_def addStaticBehaviors_result addDynamicBehaviors_result
        dropWhile_all takeWhile_all)
next
  case (Cons e rest)
  then have "\<not> list_all (accepted props) (publicDirEntries props)"
    by (simp add: dropWhile_accepted_Nil [symmetric])
  with Cons show ?thesis
    by (simp add: addBehaviorsAndOutput_def addStaticBehaviors_result)
qed

lemma tail_children:
  "children (snd (addBehaviorsAndOutput props so sbo dbo ibo this0)) =
     children this0 @
       (if fst (addBehaviorsAndOutput props so sbo dbo ibo this0) = Inr ()
        then [''DistributionDomainName''] else [])"
proof (cases "dropWhile (accepted props) (publicDirEntries props)")
  case Nil
  then have "list_all (accepted props) (publicDirEntries props)"
    by (simp add: list_all_iff)
  then show ?thesis
    by (simp add: addBehaviorsAndOutput_def addStaticBehaviors_result addDynamicBehaviors_result
        dropWhile_all takeWhile_all)
next
  case (Cons e rest)
  then show ?thesis
    by (simp add: addBehaviorsAndOutput_def addStaticBehaviors_result)
qed

lemma map_fst_calls:
  "map fst (map (\<lambda>e. (f e, so, sbo)) es) = map f es"
  by simp

lemma tail_patterns:
  assumes "addBehaviorCalls this0 = []"
  shows "emittedPatterns (snd (addBehaviorsAndOutput props so sbo dbo ibo this0)) =
     ''_next/static*'' #
       (if 22 \<le> length (publicDirEntries props) then []
        else map (\<lambda>e. getPathPattern props (publicFilePathPattern e))
               (takeWhile (accepted props) (publicDirEntries props)) @
             (if list_all (accepted props) (publicDirEntries props)
              then getPathPattern props ''_next/image*'' #
                   (if basePath props = Some ''*'' then [] else basePathRules props)
              else []))"
  using assms by (simp add: emittedPatterns_def tail_calls comp_def)

lemma DistributionDomainName_not_possible:
  "''DistributionDomainName'' \<notin> set (possibleChildren props)"
  by (simp add: possibleChildren_def absent_def split: option.splits)

lemma StaticResponseHeadersPolicy_not_possible:
  "Option.bind (override_of props staticBehaviorOptions) responseHeadersPolicy = Some policy \<Longrightarrow>
   ''StaticResponseHeadersPolicy'' \<notin> set (possibleChildren props)"
  by (simp add: possibleChildren_def absent_def)

subsection \<open>What the result of the constructor tells\<close>

lemma constructor_success:
  assumes "fst (constructor stackName props) = Inr ()"
  shows "\<not> 22 \<le> length (publicDirEntries props) \<and>
         list_all (accepted props) (publicDirEntries props) \<and>
         basePath props \<noteq> Some ''*'' \<and>
         emittedPatterns (snd (constructor stackName props)) =
           ''_next/static*'' #
           map (\<lambda>e. getPathPattern props (publicFilePathPattern e)) (publicDirEntries props) @
           getPathPattern props ''_next/image*'' # basePathRules props"
proof -
  have "fst (constructor stackName props) = Inr () \<longrightarrow> ?thesis"
  proof (rule constructor_cases [where props = props and stackName = stackName])
    fix e :: error and ch :: "construct_id list"
    show "fst (Inl e, \<lparr>children = ch, this_distribution = None, addBehaviorCalls = []\<rparr>) = Inr ()
        \<longrightarrow> \<not> 22 \<le> length (publicDirEntries props) \<and>
         list_all (accepted props) (publicDirEntries props) \<and>
         basePath props \<noteq> Some ''*'' \<and>
         emittedPatterns (snd (Inl e, \<lparr>children = ch, this_distribution = None, addBehaviorCalls = []\<rparr>)) =
           ''_next/static*'' #
           map (\<lambda>e. getPathPattern props (publicFilePathPattern e)) (publicDirEntries props) @
           getPathPattern props ''_next/image*'' # basePathRules props"
      by simp
  next
    fix sbo dbo ibo :: BehaviorOptions and this0 :: NextjsDistribution
    assume "addBehaviorCalls this0 = []"
    then show "fst (addBehaviorsAndOutput props (createStaticOrigin props) sbo dbo ibo this0) = Inr ()
        \<longrightarrow> \<not> 22 \<le> length (publicDirEntries props) \<and>
         list_all (accepted props) (publicDirEntries props) \<and>
         basePath props \<noteq> Some ''*'' \<and>
         emittedPatterns (snd (addBehaviorsAndOutput props (createStaticOrigin props) sbo dbo ibo this0)) =
           ''_next/static*'' #
           map (\<lambda>e. getPathPattern props (publicFilePathPattern e)) (publicDirEntries props) @
           getPathPattern props ''_next/image*'' # basePathRules props"
      by (auto simp: tail_fst tail_patterns dropWhile_accepted_Nil [symmetric] takeWhile_all
          split: if_splits list.splits)
  qed
  with assms show ?thesis by simp
qed

lemma constructor_ConfigurationLimitExceeded:
  assumes "fst (constructor stackName props) = Inl ConfigurationLimitExceeded"
  shows "22 \<le> length (publicDirEntries props) \<and>
         emittedPatterns (snd (constructor stackName props)) = [''_next/static*''] \<and>
         ''DistributionDomainName'' \<notin> set (children (snd (constructor stackName props)))"
proof -
  have "fst (constructor stackName props) = Inl ConfigurationLimitExceeded \<longrightarrow> ?thesis"
  proof (rule constructor_cases [where props = props and stackName = stackName])
    fix e :: error and ch :: "construct_id list"
    assume "e = MissingRequiredInput \<or> (\<exists>c. e = CdkError c)"
    then show "fst (Inl e, \<lparr>children = ch, this_distribution = None, addBehaviorCalls = []\<rparr>)
        = Inl ConfigurationLimitExceeded \<longrightarrow>
      22 \<le> length (publicDirEntries props) \<and>
      emittedPatterns (snd (Inl e, \<lparr>children = ch, this_distribution = None, addBehaviorCalls = []\<rparr>))
        = [''_next/static*''] \<and>
      ''DistributionDomainName'' \<notin>
        set (children (snd (Inl e, \<lparr>children = ch, this_distribution = None, addBehaviorCalls = []\<rparr>)))"
      by (auto simp: errors_distinct)
  next
    fix sbo dbo ibo :: BehaviorOptions and this0 :: NextjsDistribution
    assume a: "addBehaviorCalls this0 = []"
      and b: "set (children this0) \<subseteq> set (possibleChildren props)"
    from b have n: "''DistributionDomainName'' \<notin> set (children this0)"
      using DistributionDomainName_not_possible [of props] by blast
    show "fst (addBehaviorsAndOutput props (createStaticOrigin props) sbo dbo ibo this0)
        = Inl ConfigurationLimitExceeded \<longrightarrow>
      22 \<le> length (publicDirEntries props) \<and>
      emittedPatterns (snd (addBehaviorsAndOutput props (createStaticOrigin props) sbo dbo ibo this0))
        = [''_next/static*''] \<and>
      ''DistributionDomainName'' \<notin>
        set (children (snd (addBehaviorsAndOutput props (createStaticOrigin props) sbo dbo ibo this0)))"
      using n
      by (auto simp: tail_fst tail_patterns [OF a] tail_children errors_distinct
          split: if_splits list.splits)
  qed
  with assms show ?thesis by simp
qed

lemma constructor_InvalidPathPattern:
  assumes "fst (constructor stackName props) = Inl (InvalidPathPattern p)"
  shows "\<not> 22 \<le> length (publicDirEntries props) \<and>
         (\<exists>e rest. dropWhile (accepted props) (publicDirEntries props) = e # rest \<and>
            \<not> validEntry e \<and> p = publicFilePathPattern e) \<and>
         emittedPatterns (snd (constructor stackName props)) =
           ''_next/static*'' # map (\<lambda>e. getPathPattern props (publicFilePathPattern e))
             (takeWhile (accepted props) (publicDirEntries props)) \<and>
         ''DistributionDomainName'' \<notin> set (children (snd (constructor stackName props)))"
proof -
  have "fst (constructor stackName props) = Inl (InvalidPathPattern p) \<longrightarrow> ?thesis"
  proof (rule constructor_cases [where props = props and stackName = stackName])
    fix e :: error and ch :: "construct_id list"
    assume "e = MissingRequiredInput \<or> (\<exists>c. e = CdkError c)"
    then show "fst (Inl e, \<lparr>children = ch, this_distribution = None, addBehaviorCalls = []\<rparr>)
        = Inl (InvalidPathPattern p) \<longrightarrow>
      \<not> 22 \<le> length (publicDirEntries props) \<and>
         (\<exists>e rest. dropWhile (accepted props) (publicDirEntries props) = e # rest \<and>
            \<not> validEntry e \<and> p = publicFilePathPattern e) \<and>
         emittedPatterns (snd (Inl e, \<lparr>children = ch, this_distribution = None, addBehaviorCalls = []\<rparr>)) =
           ''_next/static*'' # map (\<lambda>e. getPathPattern props (publicFilePathPattern e))
             (takeWhile (accepted props) (publicDirEntries props)) \<and>
         ''DistributionDomainName'' \<notin>
           set (children (snd (Inl e, \<lparr>children = ch, this_distribution = None, addBehaviorCalls = []\<rparr>)))"
      by (auto simp: errors_distinct)
  next
    fix sbo dbo ibo :: BehaviorOptions and this0 :: NextjsDistribution
    assume a: "addBehaviorCalls this0 = []"
      and b: "set (children this0) \<subseteq> set (possibleChildren props)"
    from b have n: "''DistributionDomainName'' \<notin> set (children this0)"
      using DistributionDomainName_not_possible [of props] by blast
    show "fst (addBehaviorsAndOutput props (createStaticOrigin props) sbo dbo ibo this0)
        = Inl (InvalidPathPattern p) \<longrightarrow>
      \<not> 22 \<le> length (publicDirEntries props) \<and>
         (\<exists>e rest. dropWhile (accepted props) (publicDirEntries props) = e # rest \<and>
            \<not> validEntry e \<and> p = publicFilePathPattern e) \<and>
         emittedPatterns (snd (addBehaviorsAndOutput props (createStaticOrigin props) sbo dbo ibo this0)) =
           ''_next/static*'' # map (\<lambda>e. getPathPattern props (publicFilePathPattern e))
             (takeWhile (accepted props) (publicDirEntries props)) \<and>
         ''DistributionDomainName'' \<notin>
           set (children (snd (addBehaviorsAndOutput props (createStaticOrigin props) sbo dbo ibo this0)))"
    proof
      assume h: "fst (addBehaviorsAndOutput props (createStaticOrigin props) sbo dbo ibo this0)
        = Inl (InvalidPathPattern p)"
      then have m: "\<not> 22 \<le> length (publicDirEntries props)"
        by (auto simp: tail_fst errors_distinct split: if_splits)
      from h m obtain e rest where
        d: "dropWhile (accepted props) (publicDirEntries props) = e # rest"
        and v: "\<not> validEntry e" and p: "p = publicFilePathPattern e"
        by (auto simp: tail_fst errors_distinct InvalidPathPattern_inj
            split: if_splits list.splits)
      from d have na: "\<not> list_all (accepted props) (publicDirEntries props)"
        by (simp add: dropWhile_accepted_Nil [symmetric])
      from m na have pats:
        "emittedPatterns (snd (addBehaviorsAndOutput props (createStaticOrigin props) sbo dbo ibo this0)) =
           ''_next/static*'' # map (\<lambda>e. getPathPattern props (publicFilePathPattern e))
             (takeWhile (accepted props) (publicDirEntries props))"
        by (simp add: tail_patterns [OF a])
      from h n have c: "''DistributionDomainName'' \<notin>
           set (children (snd (addBehaviorsAndOutput props (createStaticOrigin props) sbo dbo ibo this0)))"
        by (simp add: tail_children)
      from m d v p pats c
      show "\<not> 22 \<le> length (publicDirEntries props) \<and>
         (\<exists>e rest. dropWhile (accepted props) (publicDirEntries props) = e # rest \<and>
            \<not> validEntry e \<and> p = publicFilePathPattern e) \<and>
         emittedPatterns (snd (addBehaviorsAndOutput props (createStaticOrigin props) sbo dbo ibo this0)) =
           ''_next/static*'' # map (\<lambda>e. getPathPattern props (publicFilePathPattern e))
             (takeWhile (accepted props) (publicDirEntries props)) \<and>
         ''DistributionDomainName'' \<notin>
           set (children (snd (addBehaviorsAndOutput props (createStaticOrigin props) sbo dbo ibo this0)))"
        by blast
    qed
  qed
  with assms show ?thesis by simp
qed

lemma constructor_children_possible:
  "set (children (snd (constructor stackName props))) \<subseteq>
     set (possibleChildren props) \<union> {''DistributionDomainName''}"
proof (rule constructor_cases [where props = props and stackName = stackName])
  fix e :: error and ch :: "construct_id list"
  assume "set ch \<subseteq> set (possibleChildren props)"
  then show "set (children (snd (Inl e, \<lparr>children = ch, this_distribution = None,
      addBehaviorCalls = []\<rparr>))) \<subseteq> set (possibleChildren props) \<union> {''DistributionDomainName''}"
    by auto
next
  fix sbo dbo ibo :: BehaviorOptions and this0 :: NextjsDistribution
  assume "set (children this0) \<subseteq> set (possibleChildren props)"
  then show "set (children (snd (addBehaviorsAndOutput props (createStaticOrigin props) sbo dbo ibo
      this0))) \<subseteq> set (possibleChildren props) \<union> {''DistributionDomainName''}"
    by (auto simp: tail_children)
qed

subsection \<open>Container deployments: what the constructor returns and has emitted\<close>

lemma override_of_None: "overrides props = None \<Longrightarrow> override_of props f = None"
  by (simp add: override_of_def)

lemma container_fst:
  assumes "nextjsType props \<noteq> GLOBAL_FUNCTIONS"
    and "override_of props dynamicCachePolicyProps = None"
    and "override_of props imageCachePolicyProps = None"
    and "length stackName \<le> 96"
  shows "fst (constructor stackName props) =
     (if 22 \<le> length (publicDirEntries props) then Inl ConfigurationLimitExceeded
      else case dropWhile (accepted props) (publicDirEntries props) of
             [] \<Rightarrow> if basePath props = Some ''*'' then Inl (CdkError StarPathPattern) else Inr ()
           | e # rest \<Rightarrow>
              if validEntry e then Inl (CdkError StarPathPattern)
              else Inl (InvalidPathPattern (publicFilePathPattern e)))"
  using constructor_container [OF assms] by (auto simp: tail_fst)

lemma container_calls:
  assumes "nextjsType props \<noteq> GLOBAL_FUNCTIONS"
    and "override_of props dynamicCachePolicyProps = None"
    and "override_of props imageCachePolicyProps = None"
    and "length stackName \<le> 96"
  shows "map (\<lambda>(pathPattern, orig, behaviorOptions). (pathPattern, orig))
           (addBehaviorCalls (snd (constructor stackName props))) =
     (''_next/static*'', createStaticOrigin props) #
       (if 22 \<le> length (publicDirEntries props) then []
        else map (\<lambda>e. (getPathPattern props (publicFilePathPattern e), createStaticOrigin props))
               (takeWhile (accepted props) (publicDirEntries props)) @
             (if list_all (accepted props) (publicDirEntries props)
              then (getPathPattern props ''_next/image*'', createDynamicOrigin props False) #
                   (if basePath props = Some ''*'' then []
                    else map (\<lambda>p. (p, createDynamicOrigin props False)) (basePathRules props))
              else []))"
  using constructor_container [OF assms] by (auto simp: tail_calls comp_def)

lemma container_patterns:
  assumes "nextjsType props \<noteq> GLOBAL_FUNCTIONS"
    and "override_of props dynamicCachePolicyProps = None"
    and "override_of props imageCachePolicyProps = None"
    and "length stackName \<le> 96"
  shows "emittedPatterns (snd (constructor stackName props)) =
     ''_next/static*'' #
       (if 22 \<le> length (publicDirEntries props) then []
        else map (\<lambda>e. getPathPattern props (publicFilePathPattern e))
               (takeWhile (accepted props) (publicDirEntries props)) @
             (if list_all (accepted props) (publicDirEntries props)
              then getPathPattern props ''_next/image*'' #
                   (if basePath props = Some ''*'' then [] else basePathRules props)
              else []))"
  using constructor_container [OF assms] by (auto simp: tail_patterns)

subsection \<open>The concrete inputs\<close>

lemma pathPatternChar_simps:
  "pathPatternChar CHR ''a''" "pathPatternChar CHR ''b''" "pathPatternChar CHR ''c''"
  "pathPatternChar CHR ''/''" "pathPatternChar CHR ''*''"
  "\<not> pathPatternChar CHR '' ''" "\<not> pathPatternChar CHR ''!''"
  by (simp_all add: pathPatternChar_def)

lemma validEntry_file: "validEntry \<lparr> name = [c], isDirectory = False \<rparr> = pathPatternChar c"
  by (simp add: validEntry_def publicFilePathPattern_def pathPatternRegex_test_def)

lemmas entry_simps =
  accepted_def validEntry_def publicFilePathPattern_def pathPatternRegex_test_def
  pathPatternChar_simps getPathPattern_def basePathRules_def


lemma example_container:
  "nextjsType exampleProps \<noteq> GLOBAL_FUNCTIONS" "overrides exampleProps = None"
  "nextjsType (exampleProps \<lparr> publicDirEntries := es \<rparr>) \<noteq> GLOBAL_FUNCTIONS"
  "overrides (exampleProps \<lparr> publicDirEntries := es \<rparr>) = None"
  "nextjsType (exampleProps \<lparr> basePath := b \<rparr>) \<noteq> GLOBAL_FUNCTIONS"
  "overrides (exampleProps \<lparr> basePath := b \<rparr>) = None"
  by (simp_all add: exampleProps_def)

lemma stack_short: "length ''stack'' \<le> 96"
  by simp

lemma no_overrides_fst:
  assumes "nextjsType props \<noteq> GLOBAL_FUNCTIONS" and "overrides props = None"
    and "length stackName \<le> 96"
  shows "fst (constructor stackName props) =
     (if 22 \<le> length (publicDirEntries props) then Inl ConfigurationLimitExceeded
      else case dropWhile (accepted props) (publicDirEntries props) of
             [] \<Rightarrow> if basePath props = Some ''*'' then Inl (CdkError StarPathPattern) else Inr ()
           | e # rest \<Rightarrow>
              if validEntry e then Inl (CdkError StarPathPattern)
              else Inl (InvalidPathPattern (publicFilePathPattern e)))"
  by (rule container_fst) (simp_all add: assms override_of_None)

lemma no_overrides_patterns:
  assumes "nextjsType props \<noteq> GLOBAL_FUNCTIONS" and "overrides props = None"
    and "length stackName \<le> 96"
  shows "emittedPatterns (snd (constructor stackName props)) =
     ''_next/static*'' #
       (if 22 \<le> length (publicDirEntries props) then []
        else map (\<lambda>e. getPathPattern props (publicFilePathPattern e))
               (takeWhile (accepted props) (publicDirEntries props)) @
             (if list_all (accepted props) (publicDirEntries props)
              then getPathPattern props ''_next/image*'' #
                   (if basePath props = Some ''*'' then [] else basePathRules props)
              else []))"
  by (rule container_patterns) (simp_all add: assms override_of_None)

lemma example_results:
  "fst (constructor ''stack'' exampleProps) = Inr ()"
  "emittedPatterns (snd (constructor ''stack'' exampleProps)) =
     [''_next/static*'', ''a'', ''b/*'', ''_next/image*'']"
  unfolding no_overrides_fst [OF example_container(1,2) stack_short]
    no_overrides_patterns [OF example_container(1,2) stack_short]
  by (simp_all add: exampleProps_def entry_simps)

lemma twentyTwoFiles_results:
  "fst (constructor ''stack'' (exampleProps \<lparr> publicDirEntries := twentyTwoFiles \<rparr>))
     = Inl ConfigurationLimitExceeded"
  "emittedPatterns (snd (constructor ''stack'' (exampleProps \<lparr> publicDirEntries := twentyTwoFiles \<rparr>)))
     = [''_next/static*'']"
  "fst (constructor ''stack'' (exampleProps \<lparr> publicDirEntries := twentyTwoFilesOneInvalid \<rparr>))
     = Inl ConfigurationLimitExceeded"
  unfolding no_overrides_fst [OF example_container(3,4) stack_short]
    no_overrides_patterns [OF example_container(3,4) stack_short]
  by (simp_all add: twentyTwoFiles_def twentyTwoFilesOneInvalid_def files_def)

lemma propsInvalidSecond_results:
  "fst (constructor ''stack'' propsInvalidSecond) = Inl (InvalidPathPattern ''bad name!.png'')"
  "emittedPatterns (snd (constructor ''stack'' propsInvalidSecond)) = [''_next/static*'', ''a'']"
  unfolding propsInvalidSecond_def no_overrides_fst [OF example_container(3,4) stack_short]
    no_overrides_patterns [OF example_container(3,4) stack_short]
  by (simp_all add: exampleProps_def entry_simps)

lemma propsTwoInvalid_results:
  "fst (constructor ''stack'' propsTwoInvalid) = Inl (InvalidPathPattern ''a b/*'')"
  unfolding propsTwoInvalid_def no_overrides_fst [OF example_container(3,4) stack_short]
  by (simp_all add: exampleProps_def entry_simps)

lemma basePath_results:
  "fst (constructor ''stack'' (exampleProps \<lparr> basePath := Some ''my app'' \<rparr>)) = Inr ()"
  "emittedPatterns (snd (constructor ''stack'' (exampleProps \<lparr> basePath := Some ''my app'' \<rparr>)))
     = [''_next/static*'', ''my app/a'', ''my app/b/*'', ''my app/_next/image*'', ''my app'',
        ''my app/*'']"
  "fst (constructor ''stack'' (exampleProps \<lparr> basePath := Some ''app'' \<rparr>)) = Inr ()"
  "emittedPatterns (snd (constructor ''stack'' (exampleProps \<lparr> basePath := Some ''app'' \<rparr>)))
     = [''_next/static*'', ''app/a'', ''app/b/*'', ''app/_next/image*'', ''app'', ''app/*'']"
  unfolding no_overrides_fst [OF example_container(5,6) stack_short]
    no_overrides_patterns [OF example_container(5,6) stack_short]
  by (simp_all add: exampleProps_def entry_simps)

text \<open>Further facts about the methods, used by the claims below.\<close>

lemma addStaticBehaviors_succeeds:
  "(fst (addStaticBehaviors props staticOrigin sbo this) = Inr ())
     = (length (publicDirEntries props) < 22 \<and>
        list_all (accepted props) (publicDirEntries props))"
proof (cases "dropWhile (accepted props) (publicDirEntries props)")
  case Nil
  then have "list_all (accepted props) (publicDirEntries props)"
    by (simp add: list_all_iff)
  then show ?thesis
    by (auto simp: addStaticBehaviors_result dropWhile_all)
next
  case (Cons e rest)
  then have "\<not> list_all (accepted props) (publicDirEntries props)"
    by (simp add: dropWhile_accepted_Nil [symmetric])
  with Cons show ?thesis
    by (simp add: addStaticBehaviors_result)
qed

lemma regex_fixed_patterns:
  "pathPatternRegex_test ''_next/static*''" "pathPatternRegex_test ''_next/image*''"
  "pathPatternRegex_test ''*''"
  by (simp_all add: pathPatternRegex_test_def pathPatternChar_def)

lemma regex_getPathPattern:
  assumes "list_all pathPatternChar (basePathChars props)" and "pathPatternRegex_test p"
  shows "pathPatternRegex_test (getPathPattern props p)"
  using assms pathPatternChar_simps(4)
  by (auto simp: getPathPattern_def basePathChars_def pathPatternRegex_test_def
        split: option.splits)

lemma regex_basePathRules:
  assumes "list_all pathPatternChar (basePathChars props)"
  shows "list_all pathPatternRegex_test (basePathRules props)"
  using assms pathPatternChar_simps(4,5)
  by (auto simp: basePathRules_def basePathChars_def pathPatternRegex_test_def
        split: option.splits)

lemma invalid_iff:
  "(\<not> pathPatternRegex_test p) = (p = [] \<or> (\<exists>c \<in> set p. \<not> pathPatternChar c))"
  by (auto simp: pathPatternRegex_test_def list_all_iff)

lemma spread_cases: "spread d ov = (if ov = None then d else ov)"
  by (simp add: spread_def split: option.splits)

lemma accepted_valid: "list_all (accepted props) es \<Longrightarrow> list_all validEntry es"
  by (simp add: list_all_iff accepted_def)

lemma takeWhile_accepted_first:
  "list_all (accepted props) pre \<Longrightarrow> \<not> accepted props e \<Longrightarrow>
   takeWhile (accepted props) (pre @ e # post) = pre"
  by (induction pre) simp_all

lemma createDynamicBehaviorOptions_ignores_props:
  "createDynamicBehaviorOptions stackName
      (props \<lparr> overrides := Some (ov \<lparr> dynamicResponseHeadersPolicyProps := x \<rparr>) \<rparr>)
      el fa dyn pol ch =
   createDynamicBehaviorOptions stackName (props \<lparr> overrides := Some ov \<rparr>) el fa dyn pol ch"
  by (simp add: createDynamicBehaviorOptions_def override_of_def Let_def split_beta
        cong: option.case_cong sum.case_cong)

lemma spreadBehaviorOptions_originRequestPolicy:
  "originRequestPolicy (spreadBehaviorOptions d ov) =
     (case Option.bind ov originRequestPolicy of
        None \<Rightarrow> originRequestPolicy d | Some p \<Rightarrow> Some p)"
  by (simp add: spreadBehaviorOptions_def spread_def split: option.splits)

lemma createDynamicBehaviorOptions_policies:
  assumes "fst (createDynamicBehaviorOptions stackName props el fa dyn pol ch) = Inr dbo"
  shows "origin dbo = dyn \<and>
         originRequestPolicy dbo =
           (case Option.bind (override_of props dynamicBehaviorOptions) originRequestPolicy of
              None \<Rightarrow> Some pol | Some p \<Rightarrow> Some p)"
proof -
  from assms obtain d where "dbo = spreadBehaviorOptions d (override_of props dynamicBehaviorOptions)"
    and "origin d = dyn" and "originRequestPolicy d = Some pol"
    by (simp add: createDynamicBehaviorOptions_def Let_def split_beta split: sum.splits) force
  then show ?thesis
    by (simp add: spreadBehaviorOptions_origin spreadBehaviorOptions_originRequestPolicy
          cong: option.case_cong)
qed

lemma createImageBehaviorOptions_policies:
  assumes "fst (createImageBehaviorOptions stackName props el fa dyn pol ch) = Inr ibo"
  shows "origin ibo = dyn \<and>
         originRequestPolicy ibo =
           (case Option.bind (override_of props imageBehaviorOptions) originRequestPolicy of
              None \<Rightarrow> Some pol | Some p \<Rightarrow> Some p)"
proof -
  from assms obtain d where "ibo = spreadBehaviorOptions d (override_of props imageBehaviorOptions)"
    and "origin d = dyn" and "originRequestPolicy d = Some pol"
    by (simp add: createImageBehaviorOptions_def Let_def split_beta split: sum.splits) force
  then show ?thesis
    by (simp add: spreadBehaviorOptions_origin spreadBehaviorOptions_originRequestPolicy
          cong: option.case_cong)
qed

lemma constructor_success_options:
  assumes ok: "fst (constructor stackName props) = Inr ()"
  shows "nextjsType props \<noteq> GLOBAL_FUNCTIONS \<and>
         (\<exists>sbo dbo ibo this0 ch ch'.
            fst (createDynamicBehaviorOptions stackName props None []
                   (createDynamicOrigin props False) (createDynamicOriginRequestPolicy False) ch)
              = Inr dbo \<and>
            fst (createImageBehaviorOptions stackName props None []
                   (createDynamicOrigin props False) (createDynamicOriginRequestPolicy False) ch')
              = Inr ibo \<and>
            addBehaviorCalls this0 = [] \<and>
            constructor stackName props =
              addBehaviorsAndOutput props (createStaticOrigin props) sbo dbo ibo this0)"
proof (cases "nextjsType props = GLOBAL_FUNCTIONS")
  case True
  have "constructor stackName props =
      (Inl (if truthy (functionArn props) then CdkError InlineCodeEmpty else MissingRequiredInput),
       \<lparr> children = [''CloudFrontFn''], this_distribution = None, addBehaviorCalls = [] \<rparr>)"
    by (simp add: constructor_def True createDynamicCloudFrontFunctionAssociations_def
        createEdgeLambdas_throws)
  with ok show ?thesis
    by simp
next
  case False
  define so where "so = createStaticOrigin props"
  define dyn where "dyn = createDynamicOrigin props False"
  define pol where "pol = createDynamicOriginRequestPolicy False"
  define sbo where "sbo = fst (createStaticBehaviorOptions stackName props so [])"
  define ch3 where "ch3 = snd (createStaticBehaviorOptions stackName props so [])"
  define r4 where "r4 = fst (createDynamicBehaviorOptions stackName props None [] dyn pol ch3)"
  define ch4 where "ch4 = snd (createDynamicBehaviorOptions stackName props None [] dyn pol ch3)"
  define r5 where "r5 = fst (createImageBehaviorOptions stackName props None [] dyn pol ch4)"
  define ch5 where "ch5 = snd (createImageBehaviorOptions stackName props None [] dyn pol ch4)"
  have unfolded: "constructor stackName props =
      (case r4 of
         Inl e \<Rightarrow> (Inl e, \<lparr> children = ch4, this_distribution = None, addBehaviorCalls = [] \<rparr>)
       | Inr dbo \<Rightarrow>
          (case r5 of
             Inl e \<Rightarrow>
               (Inl e, \<lparr> children = ch5, this_distribution = None, addBehaviorCalls = [] \<rparr>)
           | Inr ibo \<Rightarrow>
              (case addStaticBehaviors props so sbo
                      \<lparr> children = snd (getDistribution stackName props dbo ch5),
                        this_distribution = Some (fst (getDistribution stackName props dbo ch5)),
                        addBehaviorCalls = [] \<rparr> of
                 (Inl e, this1) \<Rightarrow> (Inl e, this1)
               | (Inr u, this1) \<Rightarrow>
                  (case addDynamicBehaviors props ibo dbo this1 of
                     (Inl e, this2) \<Rightarrow> (Inl e, this2)
                   | (Inr u', this2) \<Rightarrow>
                      (Inr (),
                       this2 \<lparr> children := children this2 @ [''DistributionDomainName''] \<rparr>)))))"
    by (simp add: constructor_def False createDynamicCloudFrontFunctionAssociations_def Let_def
        split_beta so_def dyn_def pol_def sbo_def ch3_def r4_def ch4_def r5_def ch5_def
        split: sum.splits)
  show ?thesis
  proof (cases r4)
    case (Inl e)
    with ok show ?thesis
      unfolding unfolded by simp
  next
    case r4: (Inr dbo)
    show ?thesis
    proof (cases r5)
      case (Inl e)
      with ok r4 show ?thesis
        unfolding unfolded by simp
    next
      case (Inr ibo)
      define this0 where
        "this0 = \<lparr> children = snd (getDistribution stackName props dbo ch5),
                   this_distribution = Some (fst (getDistribution stackName props dbo ch5)),
                   addBehaviorCalls = [] \<rparr>"
      have eq: "constructor stackName props =
        addBehaviorsAndOutput props (createStaticOrigin props) sbo dbo ibo this0"
        unfolding unfolded r4 Inr this0_def so_def addBehaviorsAndOutput_def by simp
      have a: "addBehaviorCalls this0 = []"
        by (simp add: this0_def)
      from r4 have d: "fst (createDynamicBehaviorOptions stackName props None []
                   (createDynamicOrigin props False) (createDynamicOriginRequestPolicy False) ch3)
              = Inr dbo"
        by (simp add: r4_def dyn_def pol_def)
      from Inr have i: "fst (createImageBehaviorOptions stackName props None []
                   (createDynamicOrigin props False) (createDynamicOriginRequestPolicy False) ch4)
              = Inr ibo"
        by (simp add: r5_def dyn_def pol_def)
      from False d i a eq show ?thesis
        by blast
    qed
  qed
qed

lemma constructor_success_calls:
  assumes ok: "fst (constructor stackName props) = Inr ()"
  shows "\<exists>sbo dbo ibo.
      addBehaviorCalls (snd (constructor stackName props)) =
        (''_next/static*'', createStaticOrigin props, sbo) #
        map (\<lambda>e. (getPathPattern props (publicFilePathPattern e), createStaticOrigin props, sbo))
          (publicDirEntries props) @
        (getPathPattern props ''_next/image*'',
         createDynamicOrigin props (nextjsType props = GLOBAL_FUNCTIONS), ibo) #
        map (\<lambda>p. (p, createDynamicOrigin props (nextjsType props = GLOBAL_FUNCTIONS), dbo))
          (basePathRules props) \<and>
      originRequestPolicy dbo =
        (case Option.bind (override_of props dynamicBehaviorOptions) originRequestPolicy of
           None \<Rightarrow> Some (createDynamicOriginRequestPolicy (nextjsType props = GLOBAL_FUNCTIONS))
         | Some p \<Rightarrow> Some p) \<and>
      originRequestPolicy ibo =
        (case Option.bind (override_of props imageBehaviorOptions) originRequestPolicy of
           None \<Rightarrow> Some (createDynamicOriginRequestPolicy (nextjsType props = GLOBAL_FUNCTIONS))
         | Some p \<Rightarrow> Some p)"
proof -
  from constructor_success_options [OF ok]
  obtain sbo dbo ibo this0 ch ch' where t: "nextjsType props \<noteq> GLOBAL_FUNCTIONS"
    and d: "fst (createDynamicBehaviorOptions stackName props None []
                   (createDynamicOrigin props False) (createDynamicOriginRequestPolicy False) ch)
              = Inr dbo"
    and i: "fst (createImageBehaviorOptions stackName props None []
                   (createDynamicOrigin props False) (createDynamicOriginRequestPolicy False) ch')
              = Inr ibo"
    and a: "addBehaviorCalls this0 = []"
    and eq: "constructor stackName props =
              addBehaviorsAndOutput props (createStaticOrigin props) sbo dbo ibo this0"
    by blast
  note s = constructor_success [OF ok]
  from s have n: "\<not> 22 \<le> length (publicDirEntries props)"
    and l: "list_all (accepted props) (publicDirEntries props)"
    and b: "basePath props \<noteq> Some ''*''"
    by simp_all
  note pd = createDynamicBehaviorOptions_policies [OF d]
  note pi = createImageBehaviorOptions_policies [OF i]
  have calls: "addBehaviorCalls (snd (constructor stackName props)) =
        (''_next/static*'', createStaticOrigin props, sbo) #
        map (\<lambda>e. (getPathPattern props (publicFilePathPattern e), createStaticOrigin props, sbo))
          (publicDirEntries props) @
        (getPathPattern props ''_next/image*'', createDynamicOrigin props False, ibo) #
        map (\<lambda>p. (p, createDynamicOrigin props False, dbo)) (basePathRules props)"
    unfolding eq tail_calls using n l b a pd pi by (simp add: takeWhile_all)
  from t have f: "(nextjsType props = GLOBAL_FUNCTIONS) = False"
    by simp
  show ?thesis
    unfolding f
    by (rule exI [of _ sbo], rule exI [of _ dbo], rule exI [of _ ibo])
       (rule conjI [OF calls conjI [OF conjunct2 [OF pd] conjunct2 [OF pi]]])
qed

section \<open>The claims\<close>

subsection \<open>C1: order of emission\<close>

text \<open>
  C1, as stated, puts the image behavior first. The constructor calls
  \<^verbatim>\<open>addStaticBehaviors\<close> before \<^verbatim>\<open>addDynamicBehaviors\<close>: for the public directory
  entries \<^verbatim>\<open>a\<close> (a file) and \<^verbatim>\<open>b\<close> (a directory) and no base path, the patterns are
  emitted in the order \<^verbatim>\<open>_next/static*\<close>, \<^verbatim>\<open>a\<close>, \<^verbatim>\<open>b/*\<close>, \<^verbatim>\<open>_next/image*\<close>, not in
  the order that the claim gives.
\<close>

theorem C1_order_counterexample:
  "fst (constructor ''stack'' exampleProps) = Inr () \<and>
   emittedPatterns (snd (constructor ''stack'' exampleProps)) =
     [''_next/static*'', ''a'', ''b/*'', ''_next/image*''] \<and>
   emittedPatterns (snd (constructor ''stack'' exampleProps)) \<noteq>
     [''_next/image*'', ''_next/static*'', ''a'', ''b/*'']"
  by (simp add: example_results)

text \<open>
  C1, amended: whenever the constructor succeeds, the patterns are emitted in this order:
  the static \<^verbatim>\<open>_next/static*\<close> pattern first, then one pattern per public directory entry
  in input order (each with the base path prepended, if any), then the image pattern
  (with the base path prepended, if any), then the two rules derived from the base path
  (if any).
\<close>

theorem C1_emission_order:
  assumes "fst (constructor stackName props) = Inr ()"
  shows "emittedPatterns (snd (constructor stackName props)) =
           ''_next/static*'' #
           map (\<lambda>e. getPathPattern props (publicFilePathPattern e)) (publicDirEntries props) @
           getPathPattern props ''_next/image*'' # basePathRules props"
  using constructor_success [OF assms] by simp

theorem C1_emission_order_witness:
  "fst (constructor ''stack'' exampleProps) = Inr () \<and>
   emittedPatterns (snd (constructor ''stack'' exampleProps)) =
     [''_next/static*'', ''a'', ''b/*'', ''_next/image*'']"
proof -
  have h: "fst (constructor ''stack'' exampleProps) = Inr ()"
    by (rule example_results)
  from C1_emission_order [OF h] h show ?thesis
    by (simp add: exampleProps_def publicFilePathPattern_def getPathPattern_def basePathRules_def)
qed

subsection \<open>C3: the ceiling on the number of public directory entries\<close>

text \<open>
  C3, as stated, makes the success of the constructor equivalent to \<open>n < 22\<close> and promises
  the route-count error from 22 entries on. A function deployment without \<^verbatim>\<open>functionArn\<close>
  and with 22 entries fails in \<^verbatim>\<open>createEdgeLambdas\<close> with \<^verbatim>\<open>functionArn is required\<close>, not
  with the route-count error; and three entries of which the second has an invalid pattern
  make the constructor fail with the invalid-pattern error although \<open>n < 22\<close>.
\<close>

theorem C3_count_counterexample:
  "22 \<le> length (publicDirEntries propsFunctionNoArn) \<and>
   fst (constructor ''stack'' propsFunctionNoArn) = Inl MissingRequiredInput \<and>
   MissingRequiredInput \<noteq> ConfigurationLimitExceeded \<and>
   length (publicDirEntries propsInvalidSecond) < 22 \<and>
   fst (constructor ''stack'' propsInvalidSecond) = Inl (InvalidPathPattern ''bad name!.png'') \<and>
   fst (constructor ''stack'' propsInvalidSecond) \<noteq> Inr ()"
  by (simp add: propsInvalidSecond_results errors_distinct)
     (simp add: propsFunctionNoArn_def propsInvalidSecond_def twentyTwoFiles_def files_def
        constructor_def createDynamicCloudFrontFunctionAssociations_def createEdgeLambdas_throws
        truthy_def exampleProps_def)

text \<open>
  C3, amended: for a list of public directory entries of length \<open>n\<close>, \<^verbatim>\<open>addStaticBehaviors\<close>
  raises the route-count error if and only if \<open>22 \<le> n\<close>; it returns normally if and only if
  \<open>n < 22\<close> and every entry is accepted (its pattern passes the grammar test and the
  distribution takes the final pattern), and it has then added the \<^verbatim>\<open>_next/static*\<close> behavior
  and one behavior per entry, in input order. When the constructor succeeds, \<open>n < 22\<close>; when
  it fails with the route-count error, \<open>22 \<le> n\<close>. The message of the error names the limit
  of 25 cache behaviors.
\<close>

theorem C3_count_ceiling:
  "((fst (addStaticBehaviors props staticOrigin sbo this) = Inl ConfigurationLimitExceeded)
     = (22 \<le> length (publicDirEntries props))) \<and>
   ((fst (addStaticBehaviors props staticOrigin sbo this) = Inr ())
     = (length (publicDirEntries props) < 22 \<and>
        list_all (accepted props) (publicDirEntries props))) \<and>
   (fst (addStaticBehaviors props staticOrigin sbo this) = Inr () \<longrightarrow>
      addBehaviorCalls (snd (addStaticBehaviors props staticOrigin sbo this)) =
        addBehaviorCalls this @ (''_next/static*'', staticOrigin, sbo) #
          map (\<lambda>e. (getPathPattern props (publicFilePathPattern e), staticOrigin, sbo))
            (publicDirEntries props)) \<and>
   (fst (constructor stackName props) = Inr () \<longrightarrow> length (publicDirEntries props) < 22) \<and>
   (fst (constructor stackName props) = Inl ConfigurationLimitExceeded \<longrightarrow>
      22 \<le> length (publicDirEntries props)) \<and>
   (\<exists>before after.
      ConfigurationLimitExceeded =
        Error (before @ ''CloudFront limits Distributions to 25 Cache Behaviors'' @ after))"
proof (intro conjI impI)
  show "(fst (addStaticBehaviors props staticOrigin sbo this) = Inl ConfigurationLimitExceeded)
     = (22 \<le> length (publicDirEntries props))"
    by (simp add: addStaticBehaviors_result errors_distinct split: list.splits)
next
  show "(fst (addStaticBehaviors props staticOrigin sbo this) = Inr ())
     = (length (publicDirEntries props) < 22 \<and>
        list_all (accepted props) (publicDirEntries props))"
    by (rule addStaticBehaviors_succeeds)
next
  assume "fst (addStaticBehaviors props staticOrigin sbo this) = Inr ()"
  then have "\<not> 22 \<le> length (publicDirEntries props)"
    and "list_all (accepted props) (publicDirEntries props)"
    by (simp_all add: addStaticBehaviors_succeeds)
  then show "addBehaviorCalls (snd (addStaticBehaviors props staticOrigin sbo this)) =
        addBehaviorCalls this @ (''_next/static*'', staticOrigin, sbo) #
          map (\<lambda>e. (getPathPattern props (publicFilePathPattern e), staticOrigin, sbo))
            (publicDirEntries props)"
    by (simp add: addStaticBehaviors_result takeWhile_all)
next
  assume "fst (constructor stackName props) = Inr ()"
  from constructor_success [OF this] show "length (publicDirEntries props) < 22"
    by simp
next
  assume "fst (constructor stackName props) = Inl ConfigurationLimitExceeded"
  from constructor_ConfigurationLimitExceeded [OF this]
  show "22 \<le> length (publicDirEntries props)"
    by simp
next
  have "ConfigurationLimitExceeded =
        Error (''Too many public/ files in Next.js build. '' @ ''CloudFront limits Distributions to 25 Cache Behaviors'' @ ''. See documented limit here: https://docs.aws.amazon.com/AmazonCloudFront/latest/DeveloperGuide/cloudfront-limits.html#limits-web-distributions. Try including all public files into 1 top level directory (i.e. static/*).'')"
    by (simp add: ConfigurationLimitExceeded_def)
  then show "\<exists>before after.
      ConfigurationLimitExceeded =
        Error (before @ ''CloudFront limits Distributions to 25 Cache Behaviors'' @ after)"
    by blast
qed

theorem C3_count_ceiling_witness:
  "fst (addStaticBehaviors exampleProps (createStaticOrigin exampleProps)
         exampleStaticBehaviorOptions emptyInstance) = Inr () \<and>
   length (publicDirEntries exampleProps) < 22 \<and>
   emittedPatterns (snd (addStaticBehaviors exampleProps (createStaticOrigin exampleProps)
         exampleStaticBehaviorOptions emptyInstance)) = [''_next/static*'', ''a'', ''b/*''] \<and>
   fst (constructor ''stack'' exampleProps) = Inr () \<and>
   22 \<le> length twentyTwoFiles \<and>
   fst (addStaticBehaviors (exampleProps \<lparr> publicDirEntries := twentyTwoFiles \<rparr>)
         (createStaticOrigin exampleProps) exampleStaticBehaviorOptions emptyInstance)
     = Inl ConfigurationLimitExceeded \<and>
   fst (constructor ''stack'' (exampleProps \<lparr> publicDirEntries := twentyTwoFiles \<rparr>))
     = Inl ConfigurationLimitExceeded"
proof -
  have a: "length (publicDirEntries exampleProps) < 22 \<and>
      list_all (accepted exampleProps) (publicDirEntries exampleProps)"
    by (simp add: exampleProps_def entry_simps)
  have l: "22 \<le> length (publicDirEntries (exampleProps \<lparr> publicDirEntries := twentyTwoFiles \<rparr>))"
    by (simp add: twentyTwoFiles_def files_def)
  note t1 = C3_count_ceiling [of exampleProps "createStaticOrigin exampleProps"
      exampleStaticBehaviorOptions emptyInstance "''stack''"]
  note t2 = C3_count_ceiling [of "exampleProps \<lparr> publicDirEntries := twentyTwoFiles \<rparr>"
      "createStaticOrigin exampleProps" exampleStaticBehaviorOptions emptyInstance "''stack''"]
  from t1 a have ok: "fst (addStaticBehaviors exampleProps (createStaticOrigin exampleProps)
         exampleStaticBehaviorOptions emptyInstance) = Inr ()"
    by blast
  with t1 have calls: "addBehaviorCalls (snd (addStaticBehaviors exampleProps
        (createStaticOrigin exampleProps) exampleStaticBehaviorOptions emptyInstance)) =
      addBehaviorCalls emptyInstance @
        (''_next/static*'', createStaticOrigin exampleProps, exampleStaticBehaviorOptions) #
        map (\<lambda>e. (getPathPattern exampleProps (publicFilePathPattern e),
                  createStaticOrigin exampleProps, exampleStaticBehaviorOptions))
          (publicDirEntries exampleProps)"
    by blast
  from t2 l have cle: "fst (addStaticBehaviors (exampleProps \<lparr> publicDirEntries := twentyTwoFiles \<rparr>)
         (createStaticOrigin exampleProps) exampleStaticBehaviorOptions emptyInstance)
     = Inl ConfigurationLimitExceeded"
    by blast
  from ok calls cle a l show ?thesis
    by (simp add: emittedPatterns_def emptyInstance_def example_results twentyTwoFiles_results
        comp_def)
       (simp add: exampleProps_def publicFilePathPattern_def getPathPattern_def)
qed

subsection \<open>C9: a function deployment without \<^verbatim>\<open>functionArn\<close>\<close>

text \<open>
  C9: when the type is \<^verbatim>\<open>GLOBAL_FUNCTIONS\<close> and \<^verbatim>\<open>functionArn\<close> is absent, the constructor
  fails with the error \<^verbatim>\<open>functionArn is required\<close> before any behavior is built or
  applied: at that moment the only construct registered is the CloudFront function of the
  viewer-request hook, no policy and no distribution exists, and no call to
  \<^verbatim>\<open>addBehavior\<close> has been made.
\<close>

theorem C9_missing_functionArn:
  assumes "nextjsType props = GLOBAL_FUNCTIONS" and "functionArn props = None"
  shows "constructor stackName props =
           (Inl MissingRequiredInput,
            \<lparr> children = [''CloudFrontFn''], this_distribution = None, addBehaviorCalls = [] \<rparr>) \<and>
         MissingRequiredInput = Error ''functionArn is required''"
  using assms
  by (simp add: constructor_def createDynamicCloudFrontFunctionAssociations_def
        createEdgeLambdas_throws truthy_def MissingRequiredInput_def)

theorem C9_missing_functionArn_witness:
  "nextjsType (exampleProps \<lparr> nextjsType := GLOBAL_FUNCTIONS \<rparr>) = GLOBAL_FUNCTIONS \<and>
   functionArn (exampleProps \<lparr> nextjsType := GLOBAL_FUNCTIONS \<rparr>) = None \<and>
   fst (constructor ''stack'' (exampleProps \<lparr> nextjsType := GLOBAL_FUNCTIONS \<rparr>))
     = Inl (Error ''functionArn is required'') \<and>
   addBehaviorCalls (snd (constructor ''stack'' (exampleProps \<lparr> nextjsType := GLOBAL_FUNCTIONS \<rparr>)))
     = []"
proof -
  have t: "nextjsType (exampleProps \<lparr> nextjsType := GLOBAL_FUNCTIONS \<rparr>) = GLOBAL_FUNCTIONS"
    by simp
  have f: "functionArn (exampleProps \<lparr> nextjsType := GLOBAL_FUNCTIONS \<rparr>) = None"
    by (simp add: exampleProps_def)
  from C9_missing_functionArn [OF t f, of "''stack''"] t f show ?thesis
    by simp
qed

subsection \<open>C10: the count check comes before the grammar check\<close>

text \<open>
  C10: with 22 public directory entries or more, \<^verbatim>\<open>addStaticBehaviors\<close> throws the
  route-count error right after adding the \<^verbatim>\<open>_next/static*\<close> behavior, without entering its
  loop, whatever the entries are; neither it nor the constructor ever reports the
  invalid-pattern error, also when an entry has an invalid pattern.
\<close>

theorem C10_count_before_grammar:
  assumes "22 \<le> length (publicDirEntries props)"
  shows "addStaticBehaviors props staticOrigin sbo this =
           (Inl ConfigurationLimitExceeded,
            this \<lparr> addBehaviorCalls :=
                     addBehaviorCalls this @ [(''_next/static*'', staticOrigin, sbo)] \<rparr>) \<and>
         (\<forall>p. fst (addStaticBehaviors props staticOrigin sbo this) \<noteq> Inl (InvalidPathPattern p)) \<and>
         (\<forall>p. fst (constructor stackName props) \<noteq> Inl (InvalidPathPattern p))"
proof (intro conjI allI)
  show "addStaticBehaviors props staticOrigin sbo this =
           (Inl ConfigurationLimitExceeded,
            this \<lparr> addBehaviorCalls :=
                     addBehaviorCalls this @ [(''_next/static*'', staticOrigin, sbo)] \<rparr>)"
    using assms by (simp add: addStaticBehaviors_result)
next
  fix p
  show "fst (addStaticBehaviors props staticOrigin sbo this) \<noteq> Inl (InvalidPathPattern p)"
    using assms by (simp add: addStaticBehaviors_result errors_distinct)
next
  fix p
  show "fst (constructor stackName props) \<noteq> Inl (InvalidPathPattern p)"
  proof
    assume "fst (constructor stackName props) = Inl (InvalidPathPattern p)"
    from constructor_InvalidPathPattern [OF this] assms show False
      by simp
  qed
qed

theorem C10_count_before_grammar_witness:
  "22 \<le> length twentyTwoFilesOneInvalid \<and>
   \<not> list_all validEntry twentyTwoFilesOneInvalid \<and>
   addStaticBehaviors (exampleProps \<lparr> publicDirEntries := twentyTwoFilesOneInvalid \<rparr>)
       (createStaticOrigin exampleProps) exampleStaticBehaviorOptions emptyInstance =
     (Inl ConfigurationLimitExceeded,
      \<lparr> children = [], this_distribution = None,
        addBehaviorCalls =
          [(''_next/static*'', createStaticOrigin exampleProps, exampleStaticBehaviorOptions)] \<rparr>) \<and>
   fst (constructor ''stack'' (exampleProps \<lparr> publicDirEntries := twentyTwoFilesOneInvalid \<rparr>))
     \<noteq> Inl (InvalidPathPattern ''!'')"
proof -
  have l: "22 \<le> length (publicDirEntries (exampleProps \<lparr> publicDirEntries := twentyTwoFilesOneInvalid \<rparr>))"
    by (simp add: twentyTwoFilesOneInvalid_def files_def)
  have v: "\<not> list_all validEntry twentyTwoFilesOneInvalid"
    by (simp add: twentyTwoFilesOneInvalid_def files_def validEntry_file pathPatternChar_def)
  from C10_count_before_grammar [OF l, of "createStaticOrigin exampleProps"
      exampleStaticBehaviorOptions emptyInstance "''stack''"] l v
  show ?thesis
    by (simp add: emptyInstance_def)
qed

subsection \<open>C8: what a validation failure leaves behind\<close>

text \<open>
  C8, as stated, says that no behavior is applied to the distribution when a validation
  fails. \<^verbatim>\<open>addStaticBehaviors\<close> adds the \<^verbatim>\<open>_next/static*\<close> behavior before it checks the
  count, and adds the behavior of each entry before it checks the next one: with 22 entries
  the distribution has received \<^verbatim>\<open>_next/static*\<close> when the count error is thrown, and with
  an invalid second entry it has received \<^verbatim>\<open>_next/static*\<close> and the first entry's pattern
  when the pattern error is thrown.
\<close>

theorem C8_partial_application_counterexample:
  "fst (constructor ''stack'' (exampleProps \<lparr> publicDirEntries := twentyTwoFiles \<rparr>))
     = Inl ConfigurationLimitExceeded \<and>
   emittedPatterns (snd (constructor ''stack'' (exampleProps \<lparr> publicDirEntries := twentyTwoFiles \<rparr>)))
     = [''_next/static*''] \<and>
   fst (constructor ''stack'' propsInvalidSecond) = Inl (InvalidPathPattern ''bad name!.png'') \<and>
   emittedPatterns (snd (constructor ''stack'' propsInvalidSecond)) = [''_next/static*'', ''a'']"
  by (simp add: twentyTwoFiles_results propsInvalidSecond_results)

text \<open>
  C8, amended: when the count check or a grammar check fails, the constructor stops there and
  nothing after the failing check runs: the distribution has received the \<^verbatim>\<open>_next/static*\<close>
  behavior and, for a grammar failure, the behaviors of the entries before the first invalid
  one, and nothing else (no behavior for the invalid entry or a later one, no image
  behavior, no base path rule), and the output \<^verbatim>\<open>DistributionDomainName\<close> is not created.
\<close>

theorem C8_failure_stops_synthesis:
  assumes "fst (constructor stackName props) = Inl err"
    and "err = ConfigurationLimitExceeded \<or> (\<exists>p. err = InvalidPathPattern p)"
  shows "emittedPatterns (snd (constructor stackName props)) =
           ''_next/static*'' #
             (if 22 \<le> length (publicDirEntries props) then []
              else map (\<lambda>e. getPathPattern props (publicFilePathPattern e))
                     (takeWhile validEntry (publicDirEntries props))) \<and>
         ''DistributionDomainName'' \<notin> set (children (snd (constructor stackName props))) \<and>
         (22 \<le> length (publicDirEntries props) \<or>
            \<not> list_all validEntry (publicDirEntries props))"
  using assms(2)
proof
  assume "err = ConfigurationLimitExceeded"
  with assms(1) have "fst (constructor stackName props) = Inl ConfigurationLimitExceeded"
    by simp
  from constructor_ConfigurationLimitExceeded [OF this] show ?thesis
    by simp
next
  assume "\<exists>p. err = InvalidPathPattern p"
  then obtain p where "err = InvalidPathPattern p" ..
  with assms(1) have "fst (constructor stackName props) = Inl (InvalidPathPattern p)"
    by simp
  from constructor_InvalidPathPattern [OF this]
  obtain e rest where n: "\<not> 22 \<le> length (publicDirEntries props)"
    and d: "dropWhile (accepted props) (publicDirEntries props) = e # rest"
    and v: "\<not> validEntry e"
    and pats: "emittedPatterns (snd (constructor stackName props)) =
           ''_next/static*'' # map (\<lambda>e. getPathPattern props (publicFilePathPattern e))
             (takeWhile (accepted props) (publicDirEntries props))"
    and c: "''DistributionDomainName'' \<notin> set (children (snd (constructor stackName props)))"
    by blast
  have "e \<in> set (publicDirEntries props)"
    using d by (metis list.set_intros(1) set_dropWhileD)
  with v have "\<not> list_all validEntry (publicDirEntries props)"
    by (auto simp: list_all_iff)
  with n pats c takeWhile_accepted_invalid [OF d v] show ?thesis
    by simp
qed

theorem C8_failure_stops_synthesis_witness:
  "fst (constructor ''stack'' propsInvalidSecond) = Inl (InvalidPathPattern ''bad name!.png'') \<and>
   emittedPatterns (snd (constructor ''stack'' propsInvalidSecond)) = [''_next/static*'', ''a''] \<and>
   ''DistributionDomainName'' \<notin> set (children (snd (constructor ''stack'' propsInvalidSecond)))"
proof -
  have h: "fst (constructor ''stack'' propsInvalidSecond) = Inl (InvalidPathPattern ''bad name!.png'')"
    by (rule propsInvalidSecond_results)
  have e: "InvalidPathPattern ''bad name!.png'' = ConfigurationLimitExceeded \<or>
           (\<exists>p. InvalidPathPattern ''bad name!.png'' = InvalidPathPattern p)"
    by blast
  from C8_failure_stops_synthesis [OF h e] h show ?thesis
    by (simp add: exampleProps_def propsInvalidSecond_def
        validEntry_def publicFilePathPattern_def pathPatternRegex_test_def pathPatternChar_simps
        getPathPattern_def)
qed

subsection \<open>C4: the grammar of path patterns\<close>

text \<open>
  C4, as stated, fails in three ways. The test of the loop is applied to the pattern of an
  entry before the base path is prepended, and the base path is never tested: with the base
  path \<^verbatim>\<open>my app\<close> the constructor succeeds and emits \<^verbatim>\<open>my app/a\<close>, which is outside the
  grammar. With 22 entries of which one is invalid, the error is the route-count error, not
  the invalid-pattern error. With two invalid entries, the error names the pattern of the
  first one, not that of the second.
\<close>

theorem C4_grammar_counterexample:
  "fst (constructor ''stack'' (exampleProps \<lparr> basePath := Some ''my app'' \<rparr>)) = Inr () \<and>
   emittedPatterns (snd (constructor ''stack'' (exampleProps \<lparr> basePath := Some ''my app'' \<rparr>)))
     = [''_next/static*'', ''my app/a'', ''my app/b/*'', ''my app/_next/image*'', ''my app'',
        ''my app/*''] \<and>
   \<not> pathPatternRegex_test ''my app/a'' \<and>
   \<not> validEntry \<lparr> name = ''!'', isDirectory = False \<rparr> \<and>
   \<lparr> name = ''!'', isDirectory = False \<rparr> \<in> set twentyTwoFilesOneInvalid \<and>
   fst (constructor ''stack'' (exampleProps \<lparr> publicDirEntries := twentyTwoFilesOneInvalid \<rparr>))
     = Inl ConfigurationLimitExceeded \<and>
   ConfigurationLimitExceeded \<noteq> InvalidPathPattern ''!'' \<and>
   \<not> validEntry \<lparr> name = ''bad name!.png'', isDirectory = False \<rparr> \<and>
   fst (constructor ''stack'' propsTwoInvalid) = Inl (InvalidPathPattern ''a b/*'') \<and>
   InvalidPathPattern ''a b/*'' \<noteq> InvalidPathPattern ''bad name!.png''"
proof -
  have m: "\<lparr> name = ''!'', isDirectory = False \<rparr> \<in> set twentyTwoFilesOneInvalid"
    by (simp add: twentyTwoFilesOneInvalid_def files_def)
  have v: "\<not> pathPatternRegex_test ''my app/a''"
    "\<not> validEntry \<lparr> name = ''!'', isDirectory = False \<rparr>"
    "\<not> validEntry \<lparr> name = ''bad name!.png'', isDirectory = False \<rparr>"
    by (simp_all add: validEntry_def publicFilePathPattern_def pathPatternRegex_test_def
        pathPatternChar_simps)
  from m v basePath_results(1,2) twentyTwoFiles_results(3) propsTwoInvalid_results
  show ?thesis
    by (simp add: errors_distinct InvalidPathPattern_inj)
qed

text \<open>
  C4, amended: when the constructor succeeds, the pattern of every public directory entry
  matches the grammar as it is before the base path is prepended, and every emitted pattern
  matches the grammar provided that the base path, if there is one, consists of characters
  of the grammar. When \<^verbatim>\<open>addStaticBehaviors\<close> runs on fewer than 22 entries, the pattern of
  an entry fails the test and every entry before it is accepted (its pattern passes the test
  and the distribution takes the final pattern), the method fails with the invalid-pattern
  error of that entry, having added the \<^verbatim>\<open>_next/static*\<close> behavior and the behaviors of the
  entries before it. Whenever the constructor fails with the invalid-pattern error, the
  pattern in it is that of the first entry in input order whose pattern fails the test. The
  message of the error carries the pattern.
\<close>

theorem C4_grammar:
  "(fst (constructor stackName props) = Inr () \<longrightarrow>
      list_all validEntry (publicDirEntries props) \<and>
      (list_all pathPatternChar (basePathChars props) \<longrightarrow>
         list_all pathPatternRegex_test (emittedPatterns (snd (constructor stackName props))))) \<and>
   (length (publicDirEntries props) < 22 \<and> publicDirEntries props = pre @ e # post \<and>
    list_all (accepted props) pre \<and> \<not> validEntry e \<longrightarrow>
      fst (addStaticBehaviors props staticOrigin sbo this) =
        Inl (InvalidPathPattern (publicFilePathPattern e)) \<and>
      addBehaviorCalls (snd (addStaticBehaviors props staticOrigin sbo this)) =
        addBehaviorCalls this @ (''_next/static*'', staticOrigin, sbo) #
          map (\<lambda>e. (getPathPattern props (publicFilePathPattern e), staticOrigin, sbo)) pre) \<and>
   (fst (constructor stackName props) = Inl (InvalidPathPattern p) \<longrightarrow>
      (\<exists>pre' e' post'. publicDirEntries props = pre' @ e' # post' \<and>
         list_all validEntry pre' \<and> \<not> validEntry e' \<and> p = publicFilePathPattern e')) \<and>
   InvalidPathPattern (publicFilePathPattern e) =
     Error (''Invalid CloudFront Distribution Cache Behavior Path Pattern: '' @
            publicFilePathPattern e @ ''. Please see documentation here: https://docs.aws.amazon.com/AmazonCloudFront/latest/DeveloperGuide/distribution-web-values-specify.html#DownloadDistValuesPathPattern'')"
proof (intro conjI impI)
  assume ok: "fst (constructor stackName props) = Inr ()"
  note s = constructor_success [OF ok]
  from s accepted_valid show v: "list_all validEntry (publicDirEntries props)"
    by blast
  assume b: "list_all pathPatternChar (basePathChars props)"
  have entries: "list_all pathPatternRegex_test
          (map (\<lambda>e. getPathPattern props (publicFilePathPattern e)) (publicDirEntries props))"
    using v b by (auto simp: list_all_iff validEntry_def intro: regex_getPathPattern)
  from s entries regex_basePathRules [OF b] regex_getPathPattern [OF b regex_fixed_patterns(2)]
  show "list_all pathPatternRegex_test (emittedPatterns (snd (constructor stackName props)))"
    by (simp add: regex_fixed_patterns)
next
  assume h: "length (publicDirEntries props) < 22 \<and> publicDirEntries props = pre @ e # post \<and>
    list_all (accepted props) pre \<and> \<not> validEntry e"
  then have n: "\<not> 22 \<le> length (publicDirEntries props)"
    by auto
  from h have na: "\<not> accepted props e"
    by (simp add: accepted_def)
  from h na have d: "dropWhile (accepted props) (publicDirEntries props) = e # post"
    by (simp add: dropWhile_accepted_first)
  from h na have t: "takeWhile (accepted props) (publicDirEntries props) = pre"
    by (simp add: takeWhile_accepted_first)
  from h have v: "\<not> validEntry e"
    by simp
  from n d v
  show "fst (addStaticBehaviors props staticOrigin sbo this) =
        Inl (InvalidPathPattern (publicFilePathPattern e))"
    by (simp add: addStaticBehaviors_result)
  from n t
  show "addBehaviorCalls (snd (addStaticBehaviors props staticOrigin sbo this)) =
        addBehaviorCalls this @ (''_next/static*'', staticOrigin, sbo) #
          map (\<lambda>e. (getPathPattern props (publicFilePathPattern e), staticOrigin, sbo)) pre"
    by (simp add: addStaticBehaviors_result)
next
  assume "fst (constructor stackName props) = Inl (InvalidPathPattern p)"
  from constructor_InvalidPathPattern [OF this]
  obtain e' rest where d: "dropWhile (accepted props) (publicDirEntries props) = e' # rest"
    and v: "\<not> validEntry e'" and p: "p = publicFilePathPattern e'"
    by blast
  from first_invalid [OF d v] v p accepted_valid
  show "\<exists>pre' e' post'. publicDirEntries props = pre' @ e' # post' \<and>
         list_all validEntry pre' \<and> \<not> validEntry e' \<and> p = publicFilePathPattern e'"
    by blast
next
  show "InvalidPathPattern (publicFilePathPattern e) =
        Error (''Invalid CloudFront Distribution Cache Behavior Path Pattern: '' @
               publicFilePathPattern e @ ''. Please see documentation here: https://docs.aws.amazon.com/AmazonCloudFront/latest/DeveloperGuide/distribution-web-values-specify.html#DownloadDistValuesPathPattern'')"
    by (simp add: InvalidPathPattern_def)
qed

theorem C4_grammar_witness:
  "fst (constructor ''stack'' (exampleProps \<lparr> basePath := Some ''app'' \<rparr>)) = Inr () \<and>
   list_all pathPatternChar (basePathChars (exampleProps \<lparr> basePath := Some ''app'' \<rparr>)) \<and>
   list_all pathPatternRegex_test
     (emittedPatterns (snd (constructor ''stack'' (exampleProps \<lparr> basePath := Some ''app'' \<rparr>)))) \<and>
   length (publicDirEntries propsInvalidSecond) < 22 \<and>
   publicDirEntries propsInvalidSecond =
     [\<lparr> name = ''a'', isDirectory = False \<rparr>] @
       \<lparr> name = ''bad name!.png'', isDirectory = False \<rparr> # [\<lparr> name = ''c'', isDirectory = True \<rparr>] \<and>
   list_all (accepted propsInvalidSecond) [\<lparr> name = ''a'', isDirectory = False \<rparr>] \<and>
   \<not> validEntry \<lparr> name = ''bad name!.png'', isDirectory = False \<rparr> \<and>
   fst (addStaticBehaviors propsInvalidSecond (createStaticOrigin exampleProps)
          exampleStaticBehaviorOptions emptyInstance) = Inl (InvalidPathPattern ''bad name!.png'') \<and>
   emittedPatterns (snd (addStaticBehaviors propsInvalidSecond (createStaticOrigin exampleProps)
          exampleStaticBehaviorOptions emptyInstance)) = [''_next/static*'', ''a''] \<and>
   fst (constructor ''stack'' propsInvalidSecond) = Inl (InvalidPathPattern ''bad name!.png'') \<and>
   (\<exists>pre e post. publicDirEntries propsInvalidSecond = pre @ e # post \<and>
      list_all validEntry pre \<and> \<not> validEntry e \<and> ''bad name!.png'' = publicFilePathPattern e)"
proof -
  have ok: "fst (constructor ''stack'' (exampleProps \<lparr> basePath := Some ''app'' \<rparr>)) = Inr ()"
    by (rule basePath_results)
  have b: "list_all pathPatternChar (basePathChars (exampleProps \<lparr> basePath := Some ''app'' \<rparr>))"
    by (simp add: basePathChars_def pathPatternChar_def)
  have h: "length (publicDirEntries propsInvalidSecond) < 22 \<and>
     publicDirEntries propsInvalidSecond =
       [\<lparr> name = ''a'', isDirectory = False \<rparr>] @
         \<lparr> name = ''bad name!.png'', isDirectory = False \<rparr> # [\<lparr> name = ''c'', isDirectory = True \<rparr>] \<and>
     list_all (accepted propsInvalidSecond) [\<lparr> name = ''a'', isDirectory = False \<rparr>] \<and>
     \<not> validEntry \<lparr> name = ''bad name!.png'', isDirectory = False \<rparr>"
    by (simp add: propsInvalidSecond_def exampleProps_def entry_simps)
  have f: "fst (constructor ''stack'' propsInvalidSecond) = Inl (InvalidPathPattern ''bad name!.png'')"
    by (rule propsInvalidSecond_results)
  note t1 = C4_grammar [of "''stack''" "exampleProps \<lparr> basePath := Some ''app'' \<rparr>"]
  note t2 = C4_grammar [of "''stack''" propsInvalidSecond "[\<lparr> name = ''a'', isDirectory = False \<rparr>]"
      "\<lparr> name = ''bad name!.png'', isDirectory = False \<rparr>" "[\<lparr> name = ''c'', isDirectory = True \<rparr>]"
      "createStaticOrigin exampleProps" exampleStaticBehaviorOptions emptyInstance
      "''bad name!.png''"]
  from t1 ok b have p1: "list_all pathPatternRegex_test
     (emittedPatterns (snd (constructor ''stack'' (exampleProps \<lparr> basePath := Some ''app'' \<rparr>))))"
    by blast
  from t2 h have p2: "fst (addStaticBehaviors propsInvalidSecond (createStaticOrigin exampleProps)
          exampleStaticBehaviorOptions emptyInstance) =
        Inl (InvalidPathPattern (publicFilePathPattern \<lparr> name = ''bad name!.png'', isDirectory = False \<rparr>))"
    and p3: "addBehaviorCalls (snd (addStaticBehaviors propsInvalidSecond
          (createStaticOrigin exampleProps) exampleStaticBehaviorOptions emptyInstance)) =
        addBehaviorCalls emptyInstance @
          (''_next/static*'', createStaticOrigin exampleProps, exampleStaticBehaviorOptions) #
          map (\<lambda>e. (getPathPattern propsInvalidSecond (publicFilePathPattern e),
                    createStaticOrigin exampleProps, exampleStaticBehaviorOptions))
            [\<lparr> name = ''a'', isDirectory = False \<rparr>]"
    by blast+
  from t2 f have p4: "\<exists>pre e post. publicDirEntries propsInvalidSecond = pre @ e # post \<and>
      list_all validEntry pre \<and> \<not> validEntry e \<and> ''bad name!.png'' = publicFilePathPattern e"
    by blast
  from p2 have p2': "fst (addStaticBehaviors propsInvalidSecond (createStaticOrigin exampleProps)
          exampleStaticBehaviorOptions emptyInstance) = Inl (InvalidPathPattern ''bad name!.png'')"
    by (simp add: publicFilePathPattern_def)
  from p3 have p3': "emittedPatterns (snd (addStaticBehaviors propsInvalidSecond
          (createStaticOrigin exampleProps) exampleStaticBehaviorOptions emptyInstance)) =
        [''_next/static*'', ''a'']"
    by (simp add: emittedPatterns_def emptyInstance_def publicFilePathPattern_def
        getPathPattern_def propsInvalidSecond_def exampleProps_def)
  from ok b p1 h p2' p3' f p4 show ?thesis
    by blast
qed

subsection \<open>C2: the base path in front of the patterns\<close>

text \<open>
  C2 says that, with a base path, every pattern carries the base path in front, the
  \<^verbatim>\<open>_next/static*\<close> pattern included. \<^verbatim>\<open>addStaticBehaviors\<close> passes the literal
  \<^verbatim>\<open>"_next/static*"\<close> to \<^verbatim>\<open>addBehavior\<close>, where the image pattern and the patterns of
  the public directory entries go through \<^verbatim>\<open>getPathPattern\<close>. With the base path
  \<^verbatim>\<open>app\<close> the calls are, with their origins: \<^verbatim>\<open>_next/static*\<close> (not \<^verbatim>\<open>app/_next/static*\<close>),
  \<^verbatim>\<open>app/a\<close> and \<^verbatim>\<open>app/b/*\<close> on the static origin, then \<^verbatim>\<open>app/_next/image*\<close>, \<^verbatim>\<open>app\<close> and
  \<^verbatim>\<open>app/*\<close> on the dynamic origin.
\<close>

theorem C2_static_pattern_not_prefixed:
  "fst (constructor ''stack'' propsBasePath) = Inr () \<and>
   map (\<lambda>(pathPattern, orig, behaviorOptions). (pathPattern, orig))
     (addBehaviorCalls (snd (constructor ''stack'' propsBasePath))) =
     [(''_next/static*'', createStaticOrigin propsBasePath),
      (''app/a'', createStaticOrigin propsBasePath),
      (''app/b/*'', createStaticOrigin propsBasePath),
      (''app/_next/image*'', createDynamicOrigin propsBasePath False),
      (''app'', createDynamicOrigin propsBasePath False),
      (''app/*'', createDynamicOrigin propsBasePath False)] \<and>
   ''_next/static*'' \<noteq> getPathPattern propsBasePath ''_next/static*''"
proof -
  have c: "nextjsType propsBasePath \<noteq> GLOBAL_FUNCTIONS"
    "override_of propsBasePath dynamicCachePolicyProps = None"
    "override_of propsBasePath imageCachePolicyProps = None"
    by (simp_all add: propsBasePath_def exampleProps_def override_of_def)
  have e: "publicDirEntries propsBasePath =
      [\<lparr> name = ''a'', isDirectory = False \<rparr>, \<lparr> name = ''b'', isDirectory = True \<rparr>]"
    and b: "basePath propsBasePath = Some ''app''"
    by (simp_all add: propsBasePath_def exampleProps_def)
  have a: "accepted propsBasePath \<lparr> name = ''a'', isDirectory = False \<rparr>"
    "accepted propsBasePath \<lparr> name = ''b'', isDirectory = True \<rparr>"
    by (simp_all add: entry_simps b)
  show ?thesis
    unfolding container_fst [OF c stack_short] container_calls [OF c stack_short]
    by (simp add: e a b publicFilePathPattern_def getPathPattern_def basePathRules_def)
qed

subsection \<open>C5: the properties override of the dynamic response headers policy\<close>

text \<open>
  C5 says that \<^verbatim>\<open>dynamicResponseHeadersPolicyProps\<close> is merged onto the default dynamic
  response headers policy. \<^verbatim>\<open>createDynamicBehaviorOptions\<close> spreads
  \<^verbatim>\<open>dynamicBehaviorOptions?.responseHeadersPolicy\<close> there instead, which is undefined at
  that point, and never reads \<^verbatim>\<open>dynamicResponseHeadersPolicyProps\<close>: with the comment
  \<^verbatim>\<open>custom comment\<close> as the only property of the override, the policy built is the default
  one, with the default comment.
\<close>

theorem C5_dynamic_props_override_ignored:
  "Option.bind (override_of propsDynamicComment dynamicBehaviorOptions) responseHeadersPolicy
     = None \<and>
   Option.bind (override_of propsDynamicComment dynamicResponseHeadersPolicyProps) rhp_comment
     = Some ''custom comment'' \<and>
   map_sum id responseHeadersPolicy
     (fst (createDynamicBehaviorOptions ''stack'' propsDynamicComment None []
            (createDynamicOrigin propsDynamicComment False)
            (createDynamicOriginRequestPolicy False) [])) =
     Inr (Some (ResponseHeadersPolicy ''DynamicResponseHeadersPolicy''
             (dynamicResponseHeadersPolicyDefaults ''stack''))) \<and>
   rhp_comment (dynamicResponseHeadersPolicyDefaults ''stack'') =
     Some ''Nextjs Dynamic Response Headers Policy for stack''"
  by (simp add: createDynamicBehaviorOptions_def Let_def split_beta propsDynamicComment_def
        exampleProps_def noOverrides_def noResponseHeadersPolicyProps_def override_of_def
        spreadBehaviorOptions_def spreadResponseHeadersPolicyObject_def new_CachePolicy_def
        spreadCachePolicyProps_def spread_def dynamicResponseHeadersPolicyDefaults_def)

subsection \<open>C6: protocol policy and origin request policy of the dynamic origin\<close>

text \<open>
  C6, as stated, gives the protocol policy of the dynamic origin from the type and the
  certificate alone, and the origin request policy from the type alone.
  \<^verbatim>\<open>createDynamicOrigin\<close> spreads \<^verbatim>\<open>dynamicHttpOriginProps\<close> behind the protocol policy it
  has computed: a container deployment with a certificate whose override carries
  \<^verbatim>\<open>HTTP_ONLY\<close> gets a dynamic origin with \<^verbatim>\<open>HTTP_ONLY\<close>, not \<^verbatim>\<open>HTTPS_ONLY\<close>, and the
  constructor adds the image behavior with that origin; for a function deployment with
  that override \<^verbatim>\<open>createDynamicOrigin\<close> returns an origin with \<^verbatim>\<open>HTTP_ONLY\<close> as well.
  \<^verbatim>\<open>createDynamicBehaviorOptions\<close> spreads \<^verbatim>\<open>dynamicBehaviorOptions\<close> behind the origin
  request policy: for a container deployment whose \<^verbatim>\<open>dynamicBehaviorOptions\<close> carry the
  policy without the Host header, the dynamic behavior options carry that policy, not the
  one that forwards everything.
\<close>

theorem C6_protocol_override_counterexample:
  "nextjsType propsCertificateHttpOverride = GLOBAL_CONTAINERS \<and>
   certificate propsCertificateHttpOverride \<noteq> None \<and>
   originProtocolPolicy (createDynamicOrigin propsCertificateHttpOverride False) = Some HTTP_ONLY \<and>
   fst (constructor ''stack'' propsCertificateHttpOverride) = Inr () \<and>
   map (\<lambda>(pathPattern, orig, behaviorOptions). (pathPattern, originProtocolPolicy orig))
     (addBehaviorCalls (snd (constructor ''stack'' propsCertificateHttpOverride))) =
     [(''_next/static*'', None), (''a'', None), (''b/*'', None),
      (''_next/image*'', Some HTTP_ONLY)] \<and>
   nextjsType propsHttpOverride = GLOBAL_FUNCTIONS \<and>
   originProtocolPolicy (createDynamicOrigin propsHttpOverride True) = Some HTTP_ONLY \<and>
   nextjsType propsOriginRequestOverride = GLOBAL_CONTAINERS \<and>
   createDynamicOriginRequestPolicy False = ALL_VIEWER \<and>
   map_sum id originRequestPolicy
     (fst (createDynamicBehaviorOptions ''stack'' propsOriginRequestOverride None []
            (createDynamicOrigin propsOriginRequestOverride False)
            (createDynamicOriginRequestPolicy False) [])) =
     Inr (Some ALL_VIEWER_EXCEPT_HOST_HEADER)"
proof -
  let ?P = propsCertificateHttpOverride
  have c: "nextjsType ?P \<noteq> GLOBAL_FUNCTIONS"
    "override_of ?P dynamicCachePolicyProps = None"
    "override_of ?P imageCachePolicyProps = None"
    by (simp_all add: propsCertificateHttpOverride_def exampleProps_def override_of_def
        noOverrides_def)
  have e: "publicDirEntries ?P =
      [\<lparr> name = ''a'', isDirectory = False \<rparr>, \<lparr> name = ''b'', isDirectory = True \<rparr>]"
    and b: "basePath ?P = None"
    by (simp_all add: propsCertificateHttpOverride_def exampleProps_def)
  have a: "accepted ?P \<lparr> name = ''a'', isDirectory = False \<rparr>"
    "accepted ?P \<lparr> name = ''b'', isDirectory = True \<rparr>"
    by (simp_all add: entry_simps b)
  have o: "originProtocolPolicy (createDynamicOrigin ?P False) = Some HTTP_ONLY"
    "originProtocolPolicy (createStaticOrigin ?P) = None"
    by (simp_all add: createDynamicOrigin_def createStaticOrigin_def originProtocolPolicy_def
        propsCertificateHttpOverride_def exampleProps_def noOverrides_def noHttpOriginProps_def
        override_of_def spreadHttpOriginProps_def spread_def)
  have f: "fst (constructor ''stack'' ?P) = Inr ()"
    unfolding container_fst [OF c stack_short] by (simp add: e a b)
  have "map (\<lambda>(pathPattern, orig, behaviorOptions). (pathPattern, originProtocolPolicy orig))
     (addBehaviorCalls (snd (constructor ''stack'' ?P))) =
     map (\<lambda>(pathPattern, orig). (pathPattern, originProtocolPolicy orig))
       (map (\<lambda>(pathPattern, orig, behaviorOptions). (pathPattern, orig))
          (addBehaviorCalls (snd (constructor ''stack'' ?P))))"
    by (simp add: split_beta)
  also have "\<dots> = [(''_next/static*'', None), (''a'', None), (''b/*'', None),
      (''_next/image*'', Some HTTP_ONLY)]"
    unfolding container_calls [OF c stack_short]
    by (simp add: e a b o publicFilePathPattern_def getPathPattern_def basePathRules_def)
  finally have calls: "map (\<lambda>(pathPattern, orig, behaviorOptions). (pathPattern, originProtocolPolicy orig))
     (addBehaviorCalls (snd (constructor ''stack'' ?P))) =
     [(''_next/static*'', None), (''a'', None), (''b/*'', None),
      (''_next/image*'', Some HTTP_ONLY)]" .
  have t: "nextjsType ?P = GLOBAL_CONTAINERS" "certificate ?P \<noteq> None"
    "nextjsType propsHttpOverride = GLOBAL_FUNCTIONS"
    "nextjsType propsOriginRequestOverride = GLOBAL_CONTAINERS"
    by (simp_all add: propsCertificateHttpOverride_def propsHttpOverride_def
        propsOriginRequestOverride_def exampleProps_def)
  have h: "originProtocolPolicy (createDynamicOrigin propsHttpOverride True) = Some HTTP_ONLY"
    by (simp add: createDynamicOrigin_def originProtocolPolicy_def propsHttpOverride_def
        exampleProps_def noOverrides_def noHttpOriginProps_def override_of_def
        spreadHttpOriginProps_def spread_def)
  have r: "createDynamicOriginRequestPolicy False = ALL_VIEWER"
    by (simp add: createDynamicOriginRequestPolicy_def)
  have q: "map_sum id originRequestPolicy
     (fst (createDynamicBehaviorOptions ''stack'' propsOriginRequestOverride None []
            (createDynamicOrigin propsOriginRequestOverride False)
            (createDynamicOriginRequestPolicy False) [])) =
     Inr (Some ALL_VIEWER_EXCEPT_HOST_HEADER)"
    by (simp add: createDynamicBehaviorOptions_def Let_def split_beta
        propsOriginRequestOverride_def exampleProps_def noOverrides_def noAddBehaviorOptions_def
        override_of_def spreadBehaviorOptions_def spread_def new_CachePolicy_def
        spreadCachePolicyProps_def)
  from t o(1) f calls h r q show ?thesis
    by simp
qed

text \<open>
  C6, amended: unless \<^verbatim>\<open>dynamicHttpOriginProps\<close> carries a protocol policy, the protocol
  policy of the dynamic origin is \<^verbatim>\<open>HTTPS_ONLY\<close> for the type \<^verbatim>\<open>GLOBAL_FUNCTIONS\<close> whatever
  the certificate, \<^verbatim>\<open>HTTPS_ONLY\<close> for another type with a certificate, and \<^verbatim>\<open>HTTP_ONLY\<close>
  otherwise; when the override carries a protocol policy, that one is used. The origin
  request policy that \<^verbatim>\<open>createDynamicOriginRequestPolicy\<close> computes leaves out the Host
  header if and only if the type is \<^verbatim>\<open>GLOBAL_FUNCTIONS\<close>, and forwards everything otherwise.
  The dynamic and the image behavior options, when they are built, carry the dynamic origin
  they are given, and the origin request policy they are given unless
  \<^verbatim>\<open>dynamicBehaviorOptions\<close> (for the image behavior, \<^verbatim>\<open>imageBehaviorOptions\<close>) carries an
  origin request policy, which is then used. When the constructor succeeds, the image
  behavior and the base path rules have been added with the dynamic origin and with
  options that carry that origin request policy: the computed one, or the one of the
  override.
\<close>

theorem C6_origin_policy:
  "(Option.bind (override_of props dynamicHttpOriginProps) protocolPolicy = None \<longrightarrow>
      originProtocolPolicy (createDynamicOrigin props (nextjsType props = GLOBAL_FUNCTIONS)) =
        Some (if nextjsType props = GLOBAL_FUNCTIONS then HTTPS_ONLY
              else if certificate props \<noteq> None then HTTPS_ONLY
              else HTTP_ONLY)) \<and>
   (Option.bind (override_of props dynamicHttpOriginProps) protocolPolicy = Some policy \<longrightarrow>
      originProtocolPolicy (createDynamicOrigin props (nextjsType props = GLOBAL_FUNCTIONS)) =
        Some policy) \<and>
   createDynamicOriginRequestPolicy (nextjsType props = GLOBAL_FUNCTIONS) =
     (if nextjsType props = GLOBAL_FUNCTIONS then ALL_VIEWER_EXCEPT_HOST_HEADER else ALL_VIEWER) \<and>
   (fst (createDynamicBehaviorOptions stackName props el fa dyn pol ch) = Inr dbo \<longrightarrow>
      origin dbo = dyn \<and>
      originRequestPolicy dbo =
        (case Option.bind (override_of props dynamicBehaviorOptions) originRequestPolicy of
           None \<Rightarrow> Some pol | Some p \<Rightarrow> Some p)) \<and>
   (fst (createImageBehaviorOptions stackName props el fa dyn pol ch') = Inr ibo \<longrightarrow>
      origin ibo = dyn \<and>
      originRequestPolicy ibo =
        (case Option.bind (override_of props imageBehaviorOptions) originRequestPolicy of
           None \<Rightarrow> Some pol | Some p \<Rightarrow> Some p)) \<and>
   (fst (constructor stackName props) = Inr () \<longrightarrow>
      (\<exists>sbo' dbo' ibo'.
         addBehaviorCalls (snd (constructor stackName props)) =
           (''_next/static*'', createStaticOrigin props, sbo') #
           map (\<lambda>e. (getPathPattern props (publicFilePathPattern e), createStaticOrigin props,
                      sbo'))
             (publicDirEntries props) @
           (getPathPattern props ''_next/image*'',
            createDynamicOrigin props (nextjsType props = GLOBAL_FUNCTIONS), ibo') #
           map (\<lambda>p. (p, createDynamicOrigin props (nextjsType props = GLOBAL_FUNCTIONS), dbo'))
             (basePathRules props) \<and>
         originRequestPolicy dbo' =
           (case Option.bind (override_of props dynamicBehaviorOptions) originRequestPolicy of
              None \<Rightarrow>
                Some (createDynamicOriginRequestPolicy (nextjsType props = GLOBAL_FUNCTIONS))
            | Some p \<Rightarrow> Some p) \<and>
         originRequestPolicy ibo' =
           (case Option.bind (override_of props imageBehaviorOptions) originRequestPolicy of
              None \<Rightarrow>
                Some (createDynamicOriginRequestPolicy (nextjsType props = GLOBAL_FUNCTIONS))
            | Some p \<Rightarrow> Some p)))"
proof (intro conjI impI)
  assume "Option.bind (override_of props dynamicHttpOriginProps) protocolPolicy = None"
  then show "originProtocolPolicy (createDynamicOrigin props (nextjsType props = GLOBAL_FUNCTIONS)) =
        Some (if nextjsType props = GLOBAL_FUNCTIONS then HTTPS_ONLY
              else if certificate props \<noteq> None then HTTPS_ONLY
              else HTTP_ONLY)"
    by (auto simp: createDynamicOrigin_def originProtocolPolicy_def override_of_def
        spreadHttpOriginProps_def spread_def split: option.splits Option.bind_splits)
next
  assume "Option.bind (override_of props dynamicHttpOriginProps) protocolPolicy = Some policy"
  then show "originProtocolPolicy (createDynamicOrigin props (nextjsType props = GLOBAL_FUNCTIONS)) =
        Some policy"
    by (auto simp: createDynamicOrigin_def originProtocolPolicy_def override_of_def
        spreadHttpOriginProps_def spread_def split: option.splits Option.bind_splits)
next
  show "createDynamicOriginRequestPolicy (nextjsType props = GLOBAL_FUNCTIONS) =
     (if nextjsType props = GLOBAL_FUNCTIONS then ALL_VIEWER_EXCEPT_HOST_HEADER else ALL_VIEWER)"
    by (simp add: createDynamicOriginRequestPolicy_def)
next
  assume d: "fst (createDynamicBehaviorOptions stackName props el fa dyn pol ch) = Inr dbo"
  from createDynamicBehaviorOptions_policies [OF d]
  show "origin dbo = dyn" and "originRequestPolicy dbo =
        (case Option.bind (override_of props dynamicBehaviorOptions) originRequestPolicy of
           None \<Rightarrow> Some pol | Some p \<Rightarrow> Some p)"
    by simp_all
next
  assume i: "fst (createImageBehaviorOptions stackName props el fa dyn pol ch') = Inr ibo"
  from createImageBehaviorOptions_policies [OF i]
  show "origin ibo = dyn" and "originRequestPolicy ibo =
        (case Option.bind (override_of props imageBehaviorOptions) originRequestPolicy of
           None \<Rightarrow> Some pol | Some p \<Rightarrow> Some p)"
    by simp_all
next
  assume "fst (constructor stackName props) = Inr ()"
  then show "(\<exists>sbo' dbo' ibo'.
         addBehaviorCalls (snd (constructor stackName props)) =
           (''_next/static*'', createStaticOrigin props, sbo') #
           map (\<lambda>e. (getPathPattern props (publicFilePathPattern e), createStaticOrigin props,
                      sbo'))
             (publicDirEntries props) @
           (getPathPattern props ''_next/image*'',
            createDynamicOrigin props (nextjsType props = GLOBAL_FUNCTIONS), ibo') #
           map (\<lambda>p. (p, createDynamicOrigin props (nextjsType props = GLOBAL_FUNCTIONS), dbo'))
             (basePathRules props) \<and>
         originRequestPolicy dbo' =
           (case Option.bind (override_of props dynamicBehaviorOptions) originRequestPolicy of
              None \<Rightarrow>
                Some (createDynamicOriginRequestPolicy (nextjsType props = GLOBAL_FUNCTIONS))
            | Some p \<Rightarrow> Some p) \<and>
         originRequestPolicy ibo' =
           (case Option.bind (override_of props imageBehaviorOptions) originRequestPolicy of
              None \<Rightarrow>
                Some (createDynamicOriginRequestPolicy (nextjsType props = GLOBAL_FUNCTIONS))
            | Some p \<Rightarrow> Some p))"
    by (rule constructor_success_calls)
qed

theorem C6_origin_policy_witness:
  "Option.bind (override_of (exampleProps \<lparr> nextjsType := GLOBAL_FUNCTIONS \<rparr>)
      dynamicHttpOriginProps) protocolPolicy = None \<and>
   originProtocolPolicy (createDynamicOrigin (exampleProps \<lparr> nextjsType := GLOBAL_FUNCTIONS \<rparr>) True)
     = Some HTTPS_ONLY \<and>
   createDynamicOriginRequestPolicy True = ALL_VIEWER_EXCEPT_HOST_HEADER \<and>
   Option.bind (override_of exampleProps dynamicHttpOriginProps) protocolPolicy = None \<and>
   originProtocolPolicy (createDynamicOrigin exampleProps False) = Some HTTP_ONLY \<and>
   createDynamicOriginRequestPolicy False = ALL_VIEWER \<and>
   Option.bind (override_of propsCertificateHttpOverride dynamicHttpOriginProps) protocolPolicy
     = Some HTTP_ONLY \<and>
   originProtocolPolicy (createDynamicOrigin propsCertificateHttpOverride False) = Some HTTP_ONLY \<and>
   map_sum id originRequestPolicy
     (fst (createDynamicBehaviorOptions ''stack'' exampleProps None []
            (createDynamicOrigin exampleProps False) (createDynamicOriginRequestPolicy False) []))
     = Inr (Some ALL_VIEWER) \<and>
   map_sum id originRequestPolicy
     (fst (createImageBehaviorOptions ''stack'' exampleProps None []
            (createDynamicOrigin exampleProps False) (createDynamicOriginRequestPolicy False) []))
     = Inr (Some ALL_VIEWER) \<and>
   fst (constructor ''stack'' exampleProps) = Inr () \<and>
   (\<exists>ibo. (''_next/image*'', createDynamicOrigin exampleProps False, ibo)
             \<in> set (addBehaviorCalls (snd (constructor ''stack'' exampleProps))) \<and>
          originRequestPolicy ibo = Some ALL_VIEWER)"
proof -
  have a: "Option.bind (override_of (exampleProps \<lparr> nextjsType := GLOBAL_FUNCTIONS \<rparr>)
      dynamicHttpOriginProps) protocolPolicy = None"
    by (simp add: override_of_def exampleProps_def)
  have b: "Option.bind (override_of exampleProps dynamicHttpOriginProps) protocolPolicy = None"
    by (simp add: override_of_def exampleProps_def)
  have c: "Option.bind (override_of propsCertificateHttpOverride dynamicHttpOriginProps)
      protocolPolicy = Some HTTP_ONLY"
    by (simp add: override_of_def propsCertificateHttpOverride_def exampleProps_def
        noOverrides_def noHttpOriginProps_def)
  have t: "nextjsType exampleProps = GLOBAL_CONTAINERS" "certificate exampleProps = None"
    "nextjsType propsCertificateHttpOverride = GLOBAL_CONTAINERS"
    by (simp_all add: exampleProps_def propsCertificateHttpOverride_def)
  have n: "override_of exampleProps dynamicCachePolicyProps = None"
    "override_of exampleProps imageCachePolicyProps = None"
    "Option.bind (override_of exampleProps dynamicBehaviorOptions) originRequestPolicy = None"
    "Option.bind (override_of exampleProps imageBehaviorOptions) originRequestPolicy = None"
    by (simp_all add: override_of_def exampleProps_def)
  from createDynamicBehaviorOptions_succeeds [OF n(1) stack_short]
  obtain dbo where d: "fst (createDynamicBehaviorOptions ''stack'' exampleProps None []
            (createDynamicOrigin exampleProps False) (createDynamicOriginRequestPolicy False) [])
        = Inr dbo"
    by blast
  from createImageBehaviorOptions_succeeds [OF n(2) stack_short]
  obtain ibo where i: "fst (createImageBehaviorOptions ''stack'' exampleProps None []
            (createDynamicOrigin exampleProps False) (createDynamicOriginRequestPolicy False) [])
        = Inr ibo"
    by blast
  note t1 = C6_origin_policy [of "exampleProps \<lparr> nextjsType := GLOBAL_FUNCTIONS \<rparr>"]
  note t2 = C6_origin_policy [of exampleProps _ "''stack''" None "[]"
      "createDynamicOrigin exampleProps False" "createDynamicOriginRequestPolicy False" "[]" dbo
      "[]" ibo]
  note t3 = C6_origin_policy [of propsCertificateHttpOverride HTTP_ONLY]
  from t1 a have p1: "originProtocolPolicy
      (createDynamicOrigin (exampleProps \<lparr> nextjsType := GLOBAL_FUNCTIONS \<rparr>) True) = Some HTTPS_ONLY"
    "createDynamicOriginRequestPolicy True = ALL_VIEWER_EXCEPT_HOST_HEADER"
    by simp_all
  from t2 b t d i n have p2: "originProtocolPolicy (createDynamicOrigin exampleProps False) = Some HTTP_ONLY"
    "createDynamicOriginRequestPolicy False = ALL_VIEWER"
    "originRequestPolicy dbo = Some (createDynamicOriginRequestPolicy False)"
    "originRequestPolicy ibo = Some (createDynamicOriginRequestPolicy False)"
    by simp_all
  from t3 c t have p3: "originProtocolPolicy (createDynamicOrigin propsCertificateHttpOverride False)
      = Some HTTP_ONLY"
    by simp
  have ok: "fst (constructor ''stack'' exampleProps) = Inr ()"
    by (rule example_results)
  have g: "getPathPattern exampleProps ''_next/image*'' = ''_next/image*''"
    by (simp add: getPathPattern_def exampleProps_def)
  from t2 ok obtain sbo' dbo' ibo' where
    calls: "addBehaviorCalls (snd (constructor ''stack'' exampleProps)) =
           (''_next/static*'', createStaticOrigin exampleProps, sbo') #
           map (\<lambda>e. (getPathPattern exampleProps (publicFilePathPattern e),
                      createStaticOrigin exampleProps, sbo'))
             (publicDirEntries exampleProps) @
           (getPathPattern exampleProps ''_next/image*'',
            createDynamicOrigin exampleProps (nextjsType exampleProps = GLOBAL_FUNCTIONS), ibo') #
           map (\<lambda>p. (p, createDynamicOrigin exampleProps
                            (nextjsType exampleProps = GLOBAL_FUNCTIONS), dbo'))
             (basePathRules exampleProps)"
    and pol: "originRequestPolicy ibo' =
           (case Option.bind (override_of exampleProps imageBehaviorOptions) originRequestPolicy of
              None \<Rightarrow>
                Some (createDynamicOriginRequestPolicy (nextjsType exampleProps = GLOBAL_FUNCTIONS))
            | Some p \<Rightarrow> Some p)"
    by blast
  from pol n t p2 have q: "originRequestPolicy ibo' = Some ALL_VIEWER"
    by simp
  from calls g t have m: "(''_next/image*'', createDynamicOrigin exampleProps False, ibo')
      \<in> set (addBehaviorCalls (snd (constructor ''stack'' exampleProps)))"
    by simp
  from m q have e: "\<exists>ibo. (''_next/image*'', createDynamicOrigin exampleProps False, ibo)
             \<in> set (addBehaviorCalls (snd (constructor ''stack'' exampleProps))) \<and>
          originRequestPolicy ibo = Some ALL_VIEWER"
    by blast
  from a b c p1 p2 p3 d i ok e show ?thesis
    by simp
qed

subsection \<open>C7: overrides of the static response headers policy\<close>

text \<open>
  C7: when \<^verbatim>\<open>staticBehaviorOptions\<close> carries a response headers policy, the static
  behavior options carry that very policy and no default policy is constructed (no
  construct \<^verbatim>\<open>StaticResponseHeadersPolicy\<close> is registered, by the method or by the
  constructor as a whole). When it carries none, the policy is a new one whose properties are
  the defaults with the properties of \<^verbatim>\<open>staticResponseHeadersPolicyProps\<close> on top: a
  property that the override has wins, every other one keeps its default; with a comment as
  the only property of the override, only the comment changes.
\<close>

theorem C7_static_policy_override:
  "(Option.bind (override_of props staticBehaviorOptions) responseHeadersPolicy = Some policy \<longrightarrow>
      responseHeadersPolicy (fst (createStaticBehaviorOptions stackName props staticOrigin ch))
        = Some policy \<and>
      snd (createStaticBehaviorOptions stackName props staticOrigin ch) = ch \<and>
      ''StaticResponseHeadersPolicy'' \<notin> set (children (snd (constructor stackName props)))) \<and>
   (Option.bind (override_of props staticBehaviorOptions) responseHeadersPolicy = None \<longrightarrow>
      responseHeadersPolicy (fst (createStaticBehaviorOptions stackName props staticOrigin ch))
        = Some (ResponseHeadersPolicy ''StaticResponseHeadersPolicy''
                 (spreadResponseHeadersPolicyProps (staticResponseHeadersPolicyDefaults stackName)
                    (override_of props staticResponseHeadersPolicyProps))) \<and>
      snd (createStaticBehaviorOptions stackName props staticOrigin ch)
        = ch @ [''StaticResponseHeadersPolicy'']) \<and>
   spreadResponseHeadersPolicyProps (staticResponseHeadersPolicyDefaults stackName) None
     = staticResponseHeadersPolicyDefaults stackName \<and>
   spreadResponseHeadersPolicyProps (staticResponseHeadersPolicyDefaults stackName) (Some p)
     = \<lparr> rhp_comment =
           (if rhp_comment p = None
            then Some (''Nextjs Static Response Headers Policy for '' @ stackName)
            else rhp_comment p),
         corsBehavior = corsBehavior p,
         customHeadersBehavior = customHeadersBehavior p,
         removeHeaders = removeHeaders p,
         responseHeadersPolicyName = responseHeadersPolicyName p,
         securityHeadersBehavior =
           (if securityHeadersBehavior p = None then Some commonSecurityHeadersBehavior
            else securityHeadersBehavior p),
         serverTimingSamplingRate = serverTimingSamplingRate p \<rparr> \<and>
   spreadResponseHeadersPolicyProps (staticResponseHeadersPolicyDefaults stackName)
       (Some (noResponseHeadersPolicyProps \<lparr> rhp_comment := Some c \<rparr>))
     = (staticResponseHeadersPolicyDefaults stackName) \<lparr> rhp_comment := Some c \<rparr>"
proof (intro conjI impI)
  assume h: "Option.bind (override_of props staticBehaviorOptions) responseHeadersPolicy = Some policy"
  then obtain sbo where s: "override_of props staticBehaviorOptions = Some sbo"
      and r: "responseHeadersPolicy sbo = Some policy"
    by (auto split: Option.bind_splits)
  show "responseHeadersPolicy (fst (createStaticBehaviorOptions stackName props staticOrigin ch))
        = Some policy"
    by (simp add: createStaticBehaviorOptions_def Let_def s r spreadBehaviorOptions_def spread_def)
  show "snd (createStaticBehaviorOptions stackName props staticOrigin ch) = ch"
    by (simp add: createStaticBehaviorOptions_children h absent_def)
  from StaticResponseHeadersPolicy_not_possible [OF h]
    constructor_children_possible [of stackName props]
  show "''StaticResponseHeadersPolicy'' \<notin> set (children (snd (constructor stackName props)))"
    by auto
next
  assume h: "Option.bind (override_of props staticBehaviorOptions) responseHeadersPolicy = None"
  show "responseHeadersPolicy (fst (createStaticBehaviorOptions stackName props staticOrigin ch))
        = Some (ResponseHeadersPolicy ''StaticResponseHeadersPolicy''
                 (spreadResponseHeadersPolicyProps (staticResponseHeadersPolicyDefaults stackName)
                    (override_of props staticResponseHeadersPolicyProps)))"
    using h
    by (auto simp: createStaticBehaviorOptions_def Let_def spreadBehaviorOptions_def spread_def
        staticResponseHeadersPolicyDefaults_def split: option.splits Option.bind_splits)
  show "snd (createStaticBehaviorOptions stackName props staticOrigin ch)
        = ch @ [''StaticResponseHeadersPolicy'']"
    by (simp add: createStaticBehaviorOptions_children h absent_def)
next
  show "spreadResponseHeadersPolicyProps (staticResponseHeadersPolicyDefaults stackName) None
     = staticResponseHeadersPolicyDefaults stackName"
    by (simp add: spreadResponseHeadersPolicyProps_def)
next
  show "spreadResponseHeadersPolicyProps (staticResponseHeadersPolicyDefaults stackName) (Some p)
     = \<lparr> rhp_comment =
           (if rhp_comment p = None
            then Some (''Nextjs Static Response Headers Policy for '' @ stackName)
            else rhp_comment p),
         corsBehavior = corsBehavior p,
         customHeadersBehavior = customHeadersBehavior p,
         removeHeaders = removeHeaders p,
         responseHeadersPolicyName = responseHeadersPolicyName p,
         securityHeadersBehavior =
           (if securityHeadersBehavior p = None then Some commonSecurityHeadersBehavior
            else securityHeadersBehavior p),
         serverTimingSamplingRate = serverTimingSamplingRate p \<rparr>"
    by (simp add: spreadResponseHeadersPolicyProps_def staticResponseHeadersPolicyDefaults_def
        spread_cases)
next
  show "spreadResponseHeadersPolicyProps (staticResponseHeadersPolicyDefaults stackName)
       (Some (noResponseHeadersPolicyProps \<lparr> rhp_comment := Some c \<rparr>))
     = (staticResponseHeadersPolicyDefaults stackName) \<lparr> rhp_comment := Some c \<rparr>"
    by (simp add: spreadResponseHeadersPolicyProps_def staticResponseHeadersPolicyDefaults_def
        noResponseHeadersPolicyProps_def spread_def)
qed

theorem C7_static_policy_override_witness:
  "Option.bind (override_of propsStaticPolicy staticBehaviorOptions) responseHeadersPolicy
     = Some (ImportedResponseHeadersPolicy ''my-policy-id'') \<and>
   responseHeadersPolicy
     (fst (createStaticBehaviorOptions ''stack'' propsStaticPolicy
            (createStaticOrigin propsStaticPolicy) []))
     = Some (ImportedResponseHeadersPolicy ''my-policy-id'') \<and>
   ''StaticResponseHeadersPolicy'' \<notin> set (children (snd (constructor ''stack'' propsStaticPolicy))) \<and>
   Option.bind (override_of propsStaticComment staticBehaviorOptions) responseHeadersPolicy
     = None \<and>
   responseHeadersPolicy
     (fst (createStaticBehaviorOptions ''stack'' propsStaticComment
            (createStaticOrigin propsStaticComment) []))
     = Some (ResponseHeadersPolicy ''StaticResponseHeadersPolicy''
              ((staticResponseHeadersPolicyDefaults ''stack'')
                 \<lparr> rhp_comment := Some ''custom comment'' \<rparr>))"
proof -
  have a: "Option.bind (override_of propsStaticPolicy staticBehaviorOptions) responseHeadersPolicy
     = Some (ImportedResponseHeadersPolicy ''my-policy-id'')"
    by (simp add: override_of_def propsStaticPolicy_def exampleProps_def noOverrides_def
        noAddBehaviorOptions_def)
  have b: "Option.bind (override_of propsStaticComment staticBehaviorOptions) responseHeadersPolicy
     = None"
    by (simp add: override_of_def propsStaticComment_def exampleProps_def noOverrides_def)
  have c: "override_of propsStaticComment staticResponseHeadersPolicyProps =
     Some (noResponseHeadersPolicyProps \<lparr> rhp_comment := Some ''custom comment'' \<rparr>)"
    by (simp add: override_of_def propsStaticComment_def exampleProps_def noOverrides_def)
  from C7_static_policy_override [of propsStaticPolicy "ImportedResponseHeadersPolicy ''my-policy-id''"
      "''stack''" "createStaticOrigin propsStaticPolicy" "[]"]
    C7_static_policy_override [of propsStaticComment _ "''stack''"
      "createStaticOrigin propsStaticComment" "[]" _ "''custom comment''"]
    a b c
  show ?thesis
    by simp
qed

end
